theory Spec2Isabelle
  imports Main "HOL-Library.Word" "HOL-Library.Char_ord" "HOL-Library.List_Lexorder"
    "HOL-Library.Product_Lexorder"
begin

section \<open>Errors\<close>

text \<open>
  Go functions of the repository return \<open>(result, error)\<close>; the model returns
  \<open>error + result\<close> with \<open>Inl\<close> the error. One constructor per \<open>fmt.Errorf\<close> site of
  \<open>internal/telegram/client.go\<close>, the cause kept where the source formats it with \<open>%v\<close>.
  \<open>RemoteError\<close> is an error answered by the remote platform (an RPC error, a timeout),
  \<open>DbError\<close> one answered by the SQL driver. \<open>NilDereference\<close> is the runtime panic of a
  method call through \<open>c.api\<close> while that pointer is still nil.
\<close>

datatype error =
    ClientNotConnected
  | ClientNotReady
  | ChannelRequiresAccessHash
  | ChannelRequiresValidAccessHash
  | SupergroupRequiresValidAccessHash
  | FailedToGetMessages error
  | FailedToGetDialogs error
  | FailedToGetUpdates error
  | FailedToGetState error
  | UnexpectedUpdatesType
  | RemoteError string
  | DbError string
  | ErrNoRows
  | ErrSyntax
  | ErrRange
  | NilDereference

section \<open>Library functions the source calls\<close>

subsection \<open>\<open>strconv.ParseInt(s, 10, 64)\<close>\<close>

text \<open>
  Go's \<open>strconv.ParseInt\<close> at base 10 and bit size 64: an optional sign, then one or
  more decimal digits and nothing else (\<open>ErrSyntax\<close> otherwise); the value has to fit a
  signed 64-bit integer (\<open>ErrRange\<close> otherwise). The callers only test the error
  against nil and use the value.
\<close>

definition is_digit :: "char \<Rightarrow> bool" where
  "is_digit c = (c \<in> set ''0123456789'')"

definition digit_val :: "char \<Rightarrow> nat" where
  "digit_val c = of_char c - 48"

definition digits_val :: "string \<Rightarrow> nat" where
  "digits_val s = foldl (\<lambda>acc c. acc * 10 + digit_val c) 0 s"

definition ParseInt :: "string \<Rightarrow> error + int" where
  "ParseInt s =
     (case s of
        [] \<Rightarrow> Inl ErrSyntax
      | c # cs \<Rightarrow>
          (let neg = (c = CHR ''-'');
               ds = (if c = CHR ''+'' \<or> c = CHR ''-'' then cs else s)
           in if ds = [] \<or> \<not> list_all is_digit ds then Inl ErrSyntax
              else (let un = digits_val ds
                    in if \<not> neg \<and> un \<ge> 2 ^ 63 then Inl ErrRange
                       else if neg \<and> un > 2 ^ 63 then Inl ErrRange
                       else Inr (if neg then - int un else int un))))"

subsection \<open>The verb \<open>%d\<close> of \<open>fmt.Sprintf\<close>\<close>

definition digit_char :: "nat \<Rightarrow> char" where
  "digit_char n = ''0123456789'' ! (n mod 10)"

function show_nat :: "nat \<Rightarrow> string" where
  "show_nat n = (if n < 10 then [digit_char n] else show_nat (n div 10) @ [digit_char n])"
  by pat_completeness auto
termination
  by (relation "measure (\<lambda>n. n)") auto

definition show_int :: "int \<Rightarrow> string" where
  "show_int i = (if i < 0 then CHR ''-'' # show_nat (nat (- i)) else show_nat (nat i))"

section \<open>Data model\<close>

subsection \<open>The records of \<open>internal/models/models.go\<close>\<close>

text \<open>
  Field names are the Go names behind a prefix for the struct, since three structs share
  \<open>ID\<close> and \<open>UserID\<close>. A \<open>time.Time\<close> is its Unix time in seconds (the normaliser builds
  every message time with \<open>time.Unix(int64(msg.Date), 0)\<close>). \<open>CreatedAt\<close> and
  \<open>UpdatedAt\<close> are written by the storage layer from its own clock and read by nothing
  modelled here; they are left out.
\<close>

record user =
  user_ID :: int
  user_FirstName :: string
  user_LastName :: string
  user_Username :: string
  user_Phone :: string
  user_IsActive :: bool
  user_LastSyncTime :: int

record conversation =
  conv_ID :: int
  conv_UserID :: int
  conv_Type :: string
  conv_Title :: string
  conv_Username :: string
  conv_AvatarURL :: string
  conv_AccessHash :: string
  conv_LastMessage :: string
  conv_LastTime :: int

record message =
  msg_ID :: int
  msg_UserID :: int
  msg_ConversationID :: int
  msg_MessageID :: int
  msg_FromID :: int
  msg_FromUsername :: string
  msg_FromFirstName :: string
  msg_FromLastName :: string
  msg_Content :: string
  msg_MessageType :: string
  msg_MediaURL :: string
  msg_Timestamp :: int

record auth_session =
  sess_ID :: int
  sess_UserID :: int
  sess_IsActive :: bool
  sess_AppID :: int
  sess_AppHash :: string

subsection \<open>The remote platform's types (package \<open>tg\<close> of gotd/td)\<close>

text \<open>
  The source switches on these with type assertions; each Go interface is a datatype
  with one constructor per implementing struct that the source names, and the remaining
  implementations of the library stand as further constructors so that the default
  branch of every type switch has inhabitants. Only the fields the source reads are
  kept. An interface value that may be nil is an \<open>option\<close>.

  Width and height of a photo variant are 32-bit on the wire (TL \<open>int\<close>); Go widens
  them to \<open>int\<close>, 64 bits on the platforms the program is built for, so their product
  cannot wrap. The model keeps them as 32-bit words and multiplies their signed values.
\<close>

datatype input_peer =
    InputPeerUser int int
  | InputPeerChannel int int
  | InputPeerChat int

datatype peer = PeerUser int | PeerChat int | PeerChannel int

datatype photo_size =
    PhotoSizeEmpty
  | PhotoSize (ps_W: "32 word") (ps_H: "32 word") (ps_Size: int)
  | PhotoCachedSize "32 word" "32 word"
  | PhotoStrippedSize
  | PhotoSizeProgressive "32 word" "32 word"
  | PhotoPathSize

datatype photo = PhotoEmpty int | Photo int "photo_size list"

datatype document_attribute =
    DocumentAttributeImageSize
  | DocumentAttributeAnimated
  | DocumentAttributeSticker
  | DocumentAttributeVideo
  | DocumentAttributeAudio string
  | DocumentAttributeFilename string
  | DocumentAttributeHasStickers
  | DocumentAttributeCustomEmoji

datatype document = DocumentEmpty int | Document int int "document_attribute list"

datatype message_media =
    MessageMediaEmpty
  | MessageMediaPhoto "photo option"
  | MessageMediaDocument "document option"
  | MessageMediaWebPage
  | MessageMediaContact
  | MessageMediaGeo
  | MessageMediaPoll
  | MessageMediaUnsupported

record tg_message =
  tgm_ID :: int
  tgm_FromID :: "peer option"
  tgm_PeerID :: "peer option"
  tgm_Message :: string
  tgm_Media :: "message_media option"
  tgm_Date :: int

datatype message_class =
    MessageEmpty int
  | Message tg_message
  | MessageService int

datatype user_class =
    UserEmpty int
  | User int string string string

datatype messages_messages =
    MessagesMessages "message_class list" "user_class list"
  | MessagesMessagesSlice "message_class list" "user_class list"
  | MessagesChannelMessages "message_class list" "user_class list"
  | MessagesMessagesNotModified

record updates_state =
  Pts :: int
  Qts :: int
  Date :: int
  Seq :: int

record updates_difference =
  NewMessages :: "message_class list"
  Users :: "user_class list"
  State :: updates_state

text \<open>
  The answers to \<open>updates.getDifference\<close>: an empty difference carries \<open>Date\<close> and
  \<open>Seq\<close>; a slice has the fields of a difference with \<open>IntermediateState\<close> where the
  difference has \<open>State\<close> (the record's \<open>State\<close> stands for it); a too-long difference
  carries \<open>Pts\<close>.
\<close>

datatype updates_difference_class =
    UpdatesDifferenceEmpty int int
  | UpdatesDifference updates_difference
  | UpdatesDifferenceSlice updates_difference
  | UpdatesDifferenceTooLong int

section \<open>The Telegram client (\<open>internal/telegram/client.go\<close>)\<close>

subsection \<open>The remote platform and the client handle\<close>

text \<open>
  The remote platform is an external collaborator: \<open>remote\<close> holds its answer to every
  request the modelled code sends, as a function of the request. \<open>MessagesGetDialogs\<close>
  is the answer to the dialog listing as \<open>GetDialogs\<close> returns it, that is after
  \<open>parseDialog\<close> and the filter on a non-empty title, which no property below concerns.
  \<open>UsersGetFullUser\<close> is the error of the self-lookup \<open>IsAuthenticated\<close> performs.

  \<open>client\<close> keeps the two fields of the Go \<open>Client\<close> that the modelled methods read.
\<close>

record remote =
  MessagesGetHistory :: "input_peer \<Rightarrow> int \<Rightarrow> error + messages_messages"
  UpdatesGetDifference :: "int \<Rightarrow> int \<Rightarrow> int \<Rightarrow> error + updates_difference_class"
  UpdatesGetState :: "error + updates_state"
  UsersGetFullUser :: "error option"
  MessagesGetDialogs :: "error + conversation list"

record client =
  isConnected :: bool
  api :: "remote option"

subsection \<open>\<open>getPhotoURL\<close> and \<open>getDocumentURL\<close>\<close>

text \<open>
  The loop of \<open>getPhotoURL\<close> with its two variables \<open>maxSize\<close> (initially 0) and
  \<open>largestSize\<close> (initially nil). Only a variant that is a \<open>*tg.PhotoSize\<close> is looked at;
  the comparison is strict.
\<close>

fun largest_size :: "photo_size list \<Rightarrow> int \<Rightarrow> photo_size option \<Rightarrow> photo_size option" where
  "largest_size [] maxSize largestSize = largestSize"
| "largest_size (PhotoSize w h sz # sizes) maxSize largestSize =
     (let currentSize = sint w * sint h
      in if currentSize > maxSize then largest_size sizes currentSize (Some (PhotoSize w h sz))
         else largest_size sizes maxSize largestSize)"
| "largest_size (other # sizes) maxSize largestSize = largest_size sizes maxSize largestSize"

definition getPhotoURL :: "int \<Rightarrow> photo_size list \<Rightarrow> string" where
  "getPhotoURL photoID sizes =
     (if sizes = [] then ''''
      else (case largest_size sizes 0 None of
              Some (PhotoSize w h sz) \<Rightarrow>
                ''telegram://photo/'' @ show_int photoID @ ''_'' @ show_int sz
            | _ \<Rightarrow> ''''))"

definition getDocumentURL :: "int \<Rightarrow> int \<Rightarrow> string" where
  "getDocumentURL docID docSize =
     ''telegram://document/'' @ show_int docID @ ''_'' @ show_int docSize"

subsection \<open>\<open>parseMessageWithUsers\<close>\<close>

text \<open>
  The four local variables the media switch assigns. \<open>attribute_step\<close> is the body of
  the loop over \<open>doc.Attributes\<close>, \<open>media_step\<close> the switch on \<open>msg.Media\<close>, and
  \<open>placeholder\<close> the recurring \<open>if content == "" { content = ... }\<close>.
\<close>

record media_vars =
  content :: string
  messageType :: string
  mediaURL :: string
  mediaName :: string

definition placeholder :: "string \<Rightarrow> media_vars \<Rightarrow> media_vars" where
  "placeholder s v = (if content v = '''' then v\<lparr>content := s\<rparr> else v)"

fun attribute_step :: "media_vars \<Rightarrow> document_attribute \<Rightarrow> media_vars" where
  "attribute_step v DocumentAttributeVideo =
     placeholder ''[Video]'' (v\<lparr>messageType := ''video''\<rparr>)"
| "attribute_step v (DocumentAttributeAudio title) =
     (let v1 = placeholder ''[Audio]'' (v\<lparr>messageType := ''audio''\<rparr>)
      in if title \<noteq> '''' then v1\<lparr>mediaName := title\<rparr> else v1)"
| "attribute_step v (DocumentAttributeFilename fileName) = v\<lparr>mediaName := fileName\<rparr>"
| "attribute_step v DocumentAttributeImageSize =
     (if messageType v = ''text''
      then placeholder ''[Image]'' (v\<lparr>messageType := ''image''\<rparr>)
      else v)"
| "attribute_step v DocumentAttributeAnimated =
     placeholder ''[GIF]'' (v\<lparr>messageType := ''gif''\<rparr>)"
| "attribute_step v DocumentAttributeSticker =
     placeholder ''[Sticker]'' (v\<lparr>messageType := ''sticker''\<rparr>)"
| "attribute_step v DocumentAttributeHasStickers = v"
| "attribute_step v DocumentAttributeCustomEmoji = v"

fun media_step :: "media_vars \<Rightarrow> message_media \<Rightarrow> media_vars" where
  "media_step v (MessageMediaPhoto p) =
     (let v1 = placeholder ''[Photo]'' (v\<lparr>messageType := ''photo''\<rparr>)
      in case p of
           Some (Photo photoID sizes) \<Rightarrow> v1\<lparr>mediaURL := getPhotoURL photoID sizes\<rparr>
         | _ \<Rightarrow> v1)"
| "media_step v (MessageMediaDocument d) =
     (case d of
        Some (Document docID docSize attrs) \<Rightarrow>
          (let v1 = foldl attribute_step v attrs;
               v2 = (if messageType v1 = ''text''
                     then placeholder ''[Document]'' (v1\<lparr>messageType := ''document''\<rparr>)
                     else v1);
               v3 = (if mediaName v2 = ''''
                     then v2\<lparr>mediaName := messageType v2 @ ''.'' @ ''file''\<rparr>
                     else v2)
           in v3\<lparr>mediaURL := getDocumentURL docID docSize\<rparr>)
      | _ \<Rightarrow> v)"
| "media_step v MessageMediaWebPage = placeholder ''[Webpage]'' v"
| "media_step v MessageMediaContact =
     placeholder ''[Contact]'' (v\<lparr>messageType := ''contact''\<rparr>)"
| "media_step v MessageMediaGeo =
     placeholder ''[Location]'' (v\<lparr>messageType := ''location''\<rparr>)"
| "media_step v MessageMediaPoll =
     placeholder ''[Poll]'' (v\<lparr>messageType := ''poll''\<rparr>)"
| "media_step v MessageMediaEmpty = v"
| "media_step v MessageMediaUnsupported = v"

text \<open>
  The separator of \<open>fmt.Sprintf("%s\n<folder> %s", content, mediaName)\<close>: a line feed, the
  four UTF-8 bytes of the file-folder glyph U+1F4C1, and a space. Go strings are byte
  sequences, and so is \<open>string\<close> here.
\<close>

definition media_name_separator :: string where
  "media_name_separator = [CHR 0x0A, CHR 0xF0, CHR 0x9F, CHR 0x93, CHR 0x81, CHR 0x20]"

text \<open>The loop over \<open>users\<close> that stops at the first \<open>*tg.User\<close> with the sender's id.\<close>

fun find_user :: "user_class list \<Rightarrow> int \<Rightarrow> string \<times> string \<times> string" where
  "find_user [] uid = ('''', '''', '''')"
| "find_user (User i username firstName lastName # us) uid =
     (if i = uid then (username, firstName, lastName) else find_user us uid)"
| "find_user (UserEmpty i # us) uid = find_user us uid"

definition parseMessageWithUsers :: "tg_message \<Rightarrow> user_class list \<Rightarrow> message" where
  "parseMessageWithUsers msg users =
     (let v0 = \<lparr>content = tgm_Message msg, messageType = ''text'', mediaURL = '''',
                 mediaName = ''''\<rparr>;
          v = (case tgm_Media msg of None \<Rightarrow> v0 | Some media \<Rightarrow> media_step v0 media);
          fromID = (case tgm_FromID msg of
                      None \<Rightarrow> 0
                    | Some (PeerUser i) \<Rightarrow> i
                    | Some (PeerChat i) \<Rightarrow> i
                    | Some (PeerChannel i) \<Rightarrow> i);
          sender = (case tgm_FromID msg of
                      Some (PeerUser i) \<Rightarrow> find_user users i
                    | _ \<Rightarrow> ('''', '''', ''''));
          body = (if mediaName v \<noteq> '''' \<and> content v \<noteq> ''''
                  then content v @ media_name_separator @ mediaName v
                  else content v)
      in \<lparr>msg_ID = 0, msg_UserID = 0, msg_ConversationID = 0,
          msg_MessageID = tgm_ID msg, msg_FromID = fromID,
          msg_FromUsername = fst sender, msg_FromFirstName = fst (snd sender),
          msg_FromLastName = snd (snd sender),
          msg_Content = body, msg_MessageType = messageType v, msg_MediaURL = mediaURL v,
          msg_Timestamp = tgm_Date msg\<rparr>)"

subsection \<open>\<open>parseMessagesResponse\<close>\<close>

text \<open>
  The three cases of the type switch run the same loop: every entry that is a
  \<open>*tg.Message\<close> is normalised with the users of the response and gets the peer id as its
  conversation; the other entries are dropped. The function never returns an error.
\<close>

fun parse_entries :: "message_class list \<Rightarrow> user_class list \<Rightarrow> int \<Rightarrow> message list" where
  "parse_entries [] users peerID = []"
| "parse_entries (Message m # ms) users peerID =
     (parseMessageWithUsers m users)\<lparr>msg_ConversationID := peerID\<rparr>
       # parse_entries ms users peerID"
| "parse_entries (other # ms) users peerID = parse_entries ms users peerID"

fun parseMessagesResponse :: "messages_messages \<Rightarrow> int \<Rightarrow> message list" where
  "parseMessagesResponse (MessagesMessages ms users) peerID = parse_entries ms users peerID"
| "parseMessagesResponse (MessagesMessagesSlice ms users) peerID = parse_entries ms users peerID"
| "parseMessagesResponse (MessagesChannelMessages ms users) peerID = parse_entries ms users peerID"
| "parseMessagesResponse MessagesMessagesNotModified peerID = []"

subsection \<open>\<open>getMessagesWithFallback\<close> and \<open>GetMessagesWithConvInfo\<close>\<close>

text \<open>
  Both return, beside the Go result, the history requests they sent to the remote
  platform, in order: each the peer addressed and the limit asked for. Neither method
  tests \<open>c.api\<close> against nil, so the first call through a nil \<open>c.api\<close> panics and sends
  nothing.
\<close>

type_synonym history_request = "input_peer \<times> int"

definition getMessagesWithFallback ::
  "client \<Rightarrow> int \<Rightarrow> int \<Rightarrow> string \<Rightarrow> string \<Rightarrow> history_request list \<times> (error + message list)" where
  "getMessagesWithFallback c peerID limit convType accessHash =
     (case api c of
        None \<Rightarrow> ([], Inl NilDereference)
      | Some r \<Rightarrow>
          (let asUser = InputPeerUser peerID 0;
               asChannel = InputPeerChannel peerID 0;
               asChat = InputPeerChat peerID
           in case MessagesGetHistory r asUser limit of
                Inr messages \<Rightarrow>
                  ([(asUser, limit)], Inr (parseMessagesResponse messages peerID))
              | Inl err1 \<Rightarrow>
                  (case MessagesGetHistory r asChannel limit of
                     Inr messages \<Rightarrow>
                       ([(asUser, limit), (asChannel, limit)],
                        Inr (parseMessagesResponse messages peerID))
                   | Inl err2 \<Rightarrow>
                       (case MessagesGetHistory r asChat limit of
                          Inr messages \<Rightarrow>
                            ([(asUser, limit), (asChannel, limit), (asChat, limit)],
                             Inr (parseMessagesResponse messages peerID))
                        | Inl err3 \<Rightarrow>
                            ([(asUser, limit), (asChannel, limit), (asChat, limit)],
                             Inl (FailedToGetMessages err3))))))"

text \<open>
  The switch on \<open>convType\<close> of \<open>GetMessagesWithConvInfo\<close>: the peer it builds, the error
  it returns, or the default branch that hands over to the fallback.
\<close>

datatype peer_choice = Addressed input_peer | Refused error | Fallback

definition choose_peer :: "int \<Rightarrow> string \<Rightarrow> string \<Rightarrow> peer_choice" where
  "choose_peer peerID convType accessHash =
     (if convType = ''user'' \<or> convType = ''bot'' then
        (if accessHash \<noteq> '''' then
           (case ParseInt accessHash of
              Inr hash \<Rightarrow> Addressed (InputPeerUser peerID hash)
            | Inl parseErr \<Rightarrow> Addressed (InputPeerUser peerID 0))
         else Addressed (InputPeerUser peerID 0))
      else if convType = ''channel'' then
        (if accessHash \<noteq> '''' then
           (case ParseInt accessHash of
              Inr hash \<Rightarrow> Addressed (InputPeerChannel peerID hash)
            | Inl parseErr \<Rightarrow> Refused ChannelRequiresValidAccessHash)
         else Refused ChannelRequiresAccessHash)
      else if convType = ''group'' then
        (if accessHash \<noteq> '''' then
           (case ParseInt accessHash of
              Inr hash \<Rightarrow> Addressed (InputPeerChannel peerID hash)
            | Inl parseErr \<Rightarrow> Refused SupergroupRequiresValidAccessHash)
         else Addressed (InputPeerChat peerID))
      else Fallback)"

definition GetMessagesWithConvInfo ::
  "client \<Rightarrow> int \<Rightarrow> int \<Rightarrow> string \<Rightarrow> string \<Rightarrow> history_request list \<times> (error + message list)" where
  "GetMessagesWithConvInfo c peerID limit convType accessHash =
     (if isConnected c then
        (case choose_peer peerID convType accessHash of
           Refused e \<Rightarrow> ([], Inl e)
         | Fallback \<Rightarrow> getMessagesWithFallback c peerID limit convType accessHash
         | Addressed p \<Rightarrow>
             (case api c of
                None \<Rightarrow> ([], Inl NilDereference)
              | Some r \<Rightarrow>
                  (case MessagesGetHistory r p limit of
                     Inl err \<Rightarrow> ([(p, limit)], Inl (FailedToGetMessages err))
                   | Inr messages \<Rightarrow>
                       ([(p, limit)], Inr (parseMessagesResponse messages peerID)))))
      else ([], Inl ClientNotConnected))"

subsection \<open>\<open>IsAuthenticated\<close>, \<open>GetDialogs\<close>, \<open>GetUpdates\<close>, \<open>GetState\<close>, \<open>ParseUpdatesMessages\<close>\<close>

text \<open>
  \<open>IsAuthenticated\<close> returns a Go \<open>bool\<close>; it calls through \<open>c.api\<close> without a nil test,
  so the model returns \<open>Inl NilDereference\<close> for the panic.
\<close>

definition IsAuthenticated :: "client \<Rightarrow> error + bool" where
  "IsAuthenticated c =
     (if isConnected c then
        (case api c of
           None \<Rightarrow> Inl NilDereference
         | Some r \<Rightarrow> Inr (UsersGetFullUser r = None))
      else Inr False)"

definition GetDialogs :: "client \<Rightarrow> error + conversation list" where
  "GetDialogs c =
     (if isConnected c then
        (case api c of
           None \<Rightarrow> Inl ClientNotReady
         | Some r \<Rightarrow>
             (case MessagesGetDialogs r of
                Inl err \<Rightarrow> Inl (FailedToGetDialogs err)
              | Inr conversations \<Rightarrow> Inr conversations))
      else Inl ClientNotConnected)"

text \<open>
  \<open>GetUpdates\<close>: a slice is turned into a difference whose state is the slice's
  intermediate state; an empty difference into one that carries the response's date and
  zero for \<open>Pts\<close>, \<open>Qts\<close> and \<open>Seq\<close>; any other response type is an error.
\<close>

definition GetUpdates :: "client \<Rightarrow> int \<Rightarrow> int \<Rightarrow> int \<Rightarrow> error + updates_difference" where
  "GetUpdates c pts date qts =
     (if isConnected c then
        (case api c of
           None \<Rightarrow> Inl ClientNotReady
         | Some r \<Rightarrow>
             (case UpdatesGetDifference r pts date qts of
                Inl err \<Rightarrow> Inl (FailedToGetUpdates err)
              | Inr (UpdatesDifference u) \<Rightarrow> Inr u
              | Inr (UpdatesDifferenceSlice u) \<Rightarrow>
                  Inr \<lparr>NewMessages = NewMessages u, Users = Users u, State = State u\<rparr>
              | Inr (UpdatesDifferenceEmpty d s) \<Rightarrow>
                  Inr \<lparr>NewMessages = [], Users = [],
                       State = \<lparr>Pts = 0, Qts = 0, Date = d, Seq = 0\<rparr>\<rparr>
              | Inr (UpdatesDifferenceTooLong p) \<Rightarrow> Inl UnexpectedUpdatesType))
      else Inl ClientNotConnected)"

definition GetState :: "client \<Rightarrow> error + updates_state" where
  "GetState c =
     (if isConnected c then
        (case api c of
           None \<Rightarrow> Inl ClientNotReady
         | Some r \<Rightarrow>
             (case UpdatesGetState r of
                Inl err \<Rightarrow> Inl (FailedToGetState err)
              | Inr st \<Rightarrow> Inr st))
      else Inl ClientNotConnected)"

fun ParseUpdatesMessages_loop :: "message_class list \<Rightarrow> user_class list \<Rightarrow> int \<Rightarrow> message list" where
  "ParseUpdatesMessages_loop [] users userID = []"
| "ParseUpdatesMessages_loop (Message m # ms) users userID =
     (let parsedMsg = (parseMessageWithUsers m users)\<lparr>msg_UserID := userID\<rparr>
      in (case tgm_PeerID m of
            None \<Rightarrow> parsedMsg
          | Some (PeerUser i) \<Rightarrow> parsedMsg\<lparr>msg_ConversationID := i\<rparr>
          | Some (PeerChat i) \<Rightarrow> parsedMsg\<lparr>msg_ConversationID := i\<rparr>
          | Some (PeerChannel i) \<Rightarrow> parsedMsg\<lparr>msg_ConversationID := i\<rparr>)
         # ParseUpdatesMessages_loop ms users userID)"
| "ParseUpdatesMessages_loop (other # ms) users userID = ParseUpdatesMessages_loop ms users userID"

definition ParseUpdatesMessages :: "updates_difference \<Rightarrow> int \<Rightarrow> message list" where
  "ParseUpdatesMessages updates userID =
     ParseUpdatesMessages_loop (NewMessages updates) (Users updates) userID"

section \<open>Storage (\<open>internal/database/database.go\<close>)\<close>

text \<open>
  The SQLite file is a record of its tables. \<open>users_table\<close>, \<open>conversations_table\<close>,
  \<open>messages_table\<close> and \<open>auth_sessions_table\<close> are the lists of their rows in insertion
  order; \<open>updates_state_table\<close> has one row per user (\<open>UNIQUE(user_id)\<close>) and is a map.
  \<open>messages_seq\<close> is the \<open>AUTOINCREMENT\<close> counter of the messages table.

  Four queries order their rows by a time column, descending. The driver stores a
  \<open>time.Time\<close> as text, formatted in the time zone of the process that wrote it, and
  SQLite compares the text; for rows of equal text SQL leaves the order open. The model
  takes both from the database: \<open>timestamp_column\<close>, \<open>last_time_column\<close>,
  \<open>updated_at_column\<close> and \<open>created_at_column\<close> give the text that a row holds in the
  column, and \<open>message_tie\<close>, \<open>conversation_tie\<close>, \<open>user_tie\<close> and \<open>session_tie\<close> the
  rank by which the engine orders rows of equal text (higher first). \<open>newest_first\<close> is
  \<open>ORDER BY column DESC\<close> under these two.

  A read can fail: \<open>read_failure\<close> gives the driver's error for a query, and
  \<open>updates_state_failure\<close> the error of the \<open>Scan\<close> in \<open>GetUpdatesState\<close> together with the
  values left in its four destinations. The callers modelled below drop or only log the
  error of every write (\<open>SaveUser\<close>, \<open>SaveConversation\<close>, \<open>SaveMessage\<close>,
  \<open>SaveUpdatesState\<close>), and no control flow depends on it; writes are modelled as
  succeeding.
\<close>

datatype query =
    QueryUsers
  | QueryConversationsByUserID int
  | QueryMessagesByUserAndConversation int int
  | QueryActiveAuthSessionByUserID int

record database =
  users_table :: "user list"
  conversations_table :: "conversation list"
  messages_table :: "message list"
  messages_seq :: int
  auth_sessions_table :: "auth_session list"
  updates_state_table :: "int \<Rightarrow> updates_state option"
  updated_at_column :: "user \<Rightarrow> string"
  user_tie :: "user \<Rightarrow> int"
  last_time_column :: "conversation \<Rightarrow> string"
  conversation_tie :: "conversation \<Rightarrow> int"
  timestamp_column :: "message \<Rightarrow> string"
  message_tie :: "message \<Rightarrow> int"
  created_at_column :: "auth_session \<Rightarrow> string"
  session_tie :: "auth_session \<Rightarrow> int"
  read_failure :: "query \<Rightarrow> error option"
  updates_state_failure :: "int \<Rightarrow> (error \<times> updates_state) option"

definition newest_first :: "('a \<Rightarrow> string) \<Rightarrow> ('a \<Rightarrow> int) \<Rightarrow> 'a list \<Rightarrow> 'a list" where
  "newest_first column tie rows = rev (sort_key (\<lambda>x. (column x, tie x)) rows)"

definition SaveUser :: "user \<Rightarrow> database \<Rightarrow> database" where
  "SaveUser u d =
     d\<lparr>users_table := filter (\<lambda>x. user_ID x \<noteq> user_ID u) (users_table d) @ [u]\<rparr>"

definition GetUsers :: "database \<Rightarrow> error + user list" where
  "GetUsers d =
     (case read_failure d QueryUsers of
        Some err \<Rightarrow> Inl err
      | None \<Rightarrow> Inr (newest_first (updated_at_column d) (user_tie d) (users_table d)))"

definition SaveConversation :: "conversation \<Rightarrow> database \<Rightarrow> database" where
  "SaveConversation conv d =
     d\<lparr>conversations_table :=
         filter (\<lambda>x. conv_ID x \<noteq> conv_ID conv) (conversations_table d) @ [conv]\<rparr>"

definition GetConversationsByUserID :: "database \<Rightarrow> int \<Rightarrow> error + conversation list" where
  "GetConversationsByUserID d userID =
     (case read_failure d (QueryConversationsByUserID userID) of
        Some err \<Rightarrow> Inl err
      | None \<Rightarrow>
          Inr (newest_first (last_time_column d) (conversation_tie d)
                 (filter (\<lambda>x. conv_UserID x = userID) (conversations_table d))))"

text \<open>
  \<open>INSERT OR REPLACE\<close> under \<open>UNIQUE(user_id, conversation_id, message_id)\<close>: the row with
  the same key, if any, is deleted and the new row gets a fresh \<open>id\<close>.
\<close>

definition same_message_key :: "message \<Rightarrow> message \<Rightarrow> bool" where
  "same_message_key a b =
     (msg_UserID a = msg_UserID b \<and> msg_ConversationID a = msg_ConversationID b
      \<and> msg_MessageID a = msg_MessageID b)"

definition SaveMessage :: "message \<Rightarrow> database \<Rightarrow> database" where
  "SaveMessage msg d =
     d\<lparr>messages_table :=
         filter (\<lambda>x. \<not> same_message_key x msg) (messages_table d)
           @ [msg\<lparr>msg_ID := messages_seq d + 1\<rparr>],
       messages_seq := messages_seq d + 1\<rparr>"

text \<open>
  \<open>... WHERE user_id = ? AND conversation_id = ? ORDER BY timestamp DESC LIMIT ? OFFSET ?\<close>.
  In SQLite a negative limit is no limit and a negative offset is none.
\<close>

definition GetMessagesByUserAndConversation ::
  "database \<Rightarrow> int \<Rightarrow> int \<Rightarrow> int \<Rightarrow> int \<Rightarrow> error + message list" where
  "GetMessagesByUserAndConversation d userID conversationID limit offset =
     (case read_failure d (QueryMessagesByUserAndConversation userID conversationID) of
        Some err \<Rightarrow> Inl err
      | None \<Rightarrow>
          (let rows = newest_first (timestamp_column d) (message_tie d)
                        (filter (\<lambda>x. msg_UserID x = userID \<and> msg_ConversationID x = conversationID)
                           (messages_table d));
               rest = drop (nat offset) rows
           in Inr (if limit < 0 then rest else take (nat limit) rest)))"

text \<open>
  \<open>... WHERE user_id = ? AND is_active = 1 ORDER BY created_at DESC LIMIT 1\<close>, with
  \<open>sql.ErrNoRows\<close> when no row matches.
\<close>

definition GetActiveAuthSessionByUserID :: "database \<Rightarrow> int \<Rightarrow> error + auth_session" where
  "GetActiveAuthSessionByUserID d userID =
     (case read_failure d (QueryActiveAuthSessionByUserID userID) of
        Some err \<Rightarrow> Inl err
      | None \<Rightarrow>
          (case newest_first (created_at_column d) (session_tie d)
                  (filter (\<lambda>x. sess_UserID x = userID \<and> sess_IsActive x)
                     (auth_sessions_table d)) of
             [] \<Rightarrow> Inl ErrNoRows
           | session # older \<Rightarrow> Inr session))"

definition SaveUpdatesState :: "int \<Rightarrow> updates_state \<Rightarrow> database \<Rightarrow> database" where
  "SaveUpdatesState userID st d =
     d\<lparr>updates_state_table := (updates_state_table d)(userID := Some st)\<rparr>"

text \<open>
  \<open>scan_updates_state\<close> is \<open>db.QueryRow(query, userID).Scan(&pts, &qts, &date, &seq)\<close>: the
  row when there is one, \<open>sql.ErrNoRows\<close> with the destinations untouched (zero) when
  there is none, and on a failure the driver's error with whatever \<open>Scan\<close> stored.
  \<open>GetUpdatesState\<close> returns \<open>(pts, qts, date, seq, err)\<close>: zeros and no error when the
  error is \<open>sql.ErrNoRows\<close>, the outcome of the scan otherwise.
\<close>

definition zero_state :: updates_state where
  "zero_state = \<lparr>Pts = 0, Qts = 0, Date = 0, Seq = 0\<rparr>"

definition scan_updates_state :: "database \<Rightarrow> int \<Rightarrow> updates_state \<times> error option" where
  "scan_updates_state d userID =
     (case updates_state_failure d userID of
        Some (err, left) \<Rightarrow> (left, Some err)
      | None \<Rightarrow>
          (case updates_state_table d userID of
             None \<Rightarrow> (zero_state, Some ErrNoRows)
           | Some st \<Rightarrow> (st, None)))"

definition GetUpdatesState :: "database \<Rightarrow> int \<Rightarrow> updates_state \<times> error option" where
  "GetUpdatesState d userID =
     (case scan_updates_state d userID of
        (st, err) \<Rightarrow> if err = Some ErrNoRows then (zero_state, None) else (st, err))"

section \<open>The sync engine and the scheduler (\<open>main.go\<close>)\<close>

subsection \<open>The state a pass works on\<close>

text \<open>
  A pass reads and writes the database and talks to the remote platform. \<open>world\<close> is the
  database, the effects so far in program order (\<open>trace\<close>), and whether the process has
  died of a panic (\<open>crashed\<close>: nothing runs after that). The events \<open>StartingAutoSync\<close> and
  \<open>AutoSyncCompleted\<close> are the first and the last log line of \<open>autoSyncUser\<close>.
\<close>

datatype event =
    StartingAutoSync int
  | CalledGetDialogs
  | CalledGetState
  | CalledGetUpdates int int int
  | SentGetHistory input_peer int
  | CalledSaveConversation conversation
  | CalledSaveMessage message
  | CalledSaveUpdatesState int updates_state
  | CalledSaveUser user
  | StartedChannelSync int
  | AutoSyncCompleted int

record world =
  store :: database
  trace :: "event list"
  crashed :: bool

definition emit :: "event list \<Rightarrow> world \<Rightarrow> world" where
  "emit es w = w\<lparr>trace := trace w @ es\<rparr>"

definition save_user :: "user \<Rightarrow> world \<Rightarrow> world" where
  "save_user u w = emit [CalledSaveUser u] (w\<lparr>store := SaveUser u (store w)\<rparr>)"

definition save_conversation :: "conversation \<Rightarrow> world \<Rightarrow> world" where
  "save_conversation conv w =
     emit [CalledSaveConversation conv] (w\<lparr>store := SaveConversation conv (store w)\<rparr>)"

definition save_message :: "message \<Rightarrow> world \<Rightarrow> world" where
  "save_message msg w = emit [CalledSaveMessage msg] (w\<lparr>store := SaveMessage msg (store w)\<rparr>)"

definition save_updates_state :: "int \<Rightarrow> updates_state \<Rightarrow> world \<Rightarrow> world" where
  "save_updates_state userID st w =
     emit [CalledSaveUpdatesState userID st] (w\<lparr>store := SaveUpdatesState userID st (store w)\<rparr>)"

definition sent :: "history_request list \<Rightarrow> world \<Rightarrow> world" where
  "sent requests w = emit (map (\<lambda>(p, limit). SentGetHistory p limit) requests) w"

subsection \<open>\<open>autoSyncUser\<close>: the initial full sync\<close>

text \<open>
  The two loops over \<open>dialogs\<close> (lines 52 and 61 of \<open>main.go\<close>) and the state snapshot
  after them. The one-second sleep between conversations is not modelled.
\<close>

definition save_dialog :: "int \<Rightarrow> world \<Rightarrow> conversation \<Rightarrow> world" where
  "save_dialog userID w dialog = save_conversation (dialog\<lparr>conv_UserID := userID\<rparr>) w"

definition sync_dialog_messages :: "client \<Rightarrow> int \<Rightarrow> world \<Rightarrow> conversation \<Rightarrow> world" where
  "sync_dialog_messages c userID w dialog =
     (if crashed w then w
      else (case GetMessagesWithConvInfo c (conv_ID dialog) 50 (conv_Type dialog)
                   (conv_AccessHash dialog) of
              (requests, Inl err) \<Rightarrow>
                (if err = NilDereference then (sent requests w)\<lparr>crashed := True\<rparr>
                 else sent requests w)
            | (requests, Inr messages) \<Rightarrow>
                foldl (\<lambda>w' msg. save_message (msg\<lparr>msg_UserID := userID\<rparr>) w')
                  (sent requests w) messages))"

definition initial_full_sync :: "client \<Rightarrow> int \<Rightarrow> world \<Rightarrow> world" where
  "initial_full_sync c userID w =
     (case GetDialogs c of
        Inl err \<Rightarrow> emit [CalledGetDialogs] w
      | Inr dialogs \<Rightarrow>
          (let w1 = foldl (save_dialog userID) (emit [CalledGetDialogs] w) dialogs;
               w2 = foldl (sync_dialog_messages c userID) w1 dialogs
           in if crashed w2 then w2
              else emit [AutoSyncCompleted userID]
                     (case GetState c of
                        Inl err \<Rightarrow> emit [CalledGetState] w2
                      | Inr st \<Rightarrow> save_updates_state userID st (emit [CalledGetState] w2))))"

subsection \<open>\<open>autoSyncUser\<close>: the incremental sync and the channel sync\<close>

text \<open>
  The incremental branch ends by starting a goroutine (\<open>go func() { ... }()\<close>, lines 124
  to 178) and goes on to the last log line without waiting for it. \<open>channel_sync\<close> is
  that goroutine and \<open>channel_sync_conv\<close> the body of its loop over the user's
  conversations; both are given as functions of the world the goroutine finds when it
  runs. The goroutine shares the client and the database with its caller and runs
  beside the rest of the tick: it reads the conversations and the messages, sends history
  requests and writes messages. \<open>incremental_sync\<close> records only that it was started
  (\<open>StartedChannelSync\<close>); the store and the trace of the world it returns are those of
  the calling goroutine. The ticker loop and the passes read the users, the sessions and
  the cursors only; the channel sync changes none of them, its writes go to the messages
  table and its counter (lemma \<open>channel_sync_writes_messages_only\<close>).
\<close>

definition latest_message_id :: "database \<Rightarrow> int \<Rightarrow> int \<Rightarrow> int" where
  "latest_message_id d userID conversationID =
     (case GetMessagesByUserAndConversation d userID conversationID 1 0 of
        Inl err \<Rightarrow> 0
      | Inr [] \<Rightarrow> 0
      | Inr (latest # older) \<Rightarrow> msg_MessageID latest)"

definition save_if_newer :: "int \<Rightarrow> int \<Rightarrow> world \<Rightarrow> message \<Rightarrow> world" where
  "save_if_newer userID offsetID w msg =
     (if offsetID = 0 \<or> msg_MessageID msg > offsetID
      then save_message (msg\<lparr>msg_UserID := userID\<rparr>) w
      else w)"

definition channel_sync_conv :: "client \<Rightarrow> int \<Rightarrow> world \<Rightarrow> conversation \<Rightarrow> world" where
  "channel_sync_conv c userID w conv =
     (if crashed w then w
      else if (conv_Type conv = ''channel'' \<or> conv_Type conv = ''group'')
              \<and> conv_AccessHash conv \<noteq> '''' then
        (let offsetID = latest_message_id (store w) userID (conv_ID conv)
         in case GetMessagesWithConvInfo c (conv_ID conv) 50 (conv_Type conv)
                   (conv_AccessHash conv) of
              (requests, Inl err) \<Rightarrow>
                (if err = NilDereference then (sent requests w)\<lparr>crashed := True\<rparr>
                 else sent requests w)
            | (requests, Inr channelMessages) \<Rightarrow>
                foldl (save_if_newer userID offsetID) (sent requests w) channelMessages)
      else w)"

definition channel_sync :: "client \<Rightarrow> int \<Rightarrow> world \<Rightarrow> world" where
  "channel_sync c userID w =
     (case GetConversationsByUserID (store w) userID of
        Inl err \<Rightarrow> w
      | Inr channels \<Rightarrow> foldl (channel_sync_conv c userID) w channels)"

definition apply_updates :: "client \<Rightarrow> int \<Rightarrow> updates_state \<Rightarrow> world \<Rightarrow> world" where
  "apply_updates c userID stored w =
     (let w0 = emit [CalledGetUpdates (Pts stored) (Date stored) (Qts stored)] w
      in case GetUpdates c (Pts stored) (Date stored) (Qts stored) of
           Inl err \<Rightarrow> w0
         | Inr updates \<Rightarrow>
             (let w1 = foldl (\<lambda>w' msg. save_message msg w') w0
                         (ParseUpdatesMessages updates userID);
                  st = State updates
              in if Pts st > 0 \<or> Date st > 0 then save_updates_state userID st w1 else w1))"

definition incremental_sync :: "client \<Rightarrow> int \<Rightarrow> updates_state \<Rightarrow> world \<Rightarrow> world" where
  "incremental_sync c userID stored w =
     emit [StartedChannelSync userID, AutoSyncCompleted userID]
       (apply_updates c userID stored w)"

subsection \<open>\<open>autoSyncUser\<close>\<close>

text \<open>
  \<open>no_stored_state\<close> is the test of line 39,
  \<open>storedPts == 0 && storedQts == 0 && storedDate == 0\<close>.
\<close>

definition no_stored_state :: "updates_state \<Rightarrow> bool" where
  "no_stored_state st = (Pts st = 0 \<and> Qts st = 0 \<and> Date st = 0)"

definition autoSyncUser :: "client \<Rightarrow> int \<Rightarrow> world \<Rightarrow> world" where
  "autoSyncUser c userID w =
     (if crashed w then w
      else (let w0 = emit [StartingAutoSync userID] w;
                stored = (case GetUpdatesState (store w0) userID of
                            (st, Some err) \<Rightarrow> zero_state
                          | (st, None) \<Rightarrow> st)
            in if no_stored_state stored then initial_full_sync c userID w0
               else incremental_sync c userID stored w0))"

subsection \<open>The periodic tick\<close>

text \<open>
  The body of the ticker loop (lines 224 to 263). \<open>Connect\<close> starts the connection in a
  goroutine, waits two seconds and returns; what the client is after that depends on
  the network. \<open>connect_result\<close> is the outcome of the \<open>Connect\<close> call made in the turn of
  a user, by the user's id and the credentials passed: the error returned and the client
  as the rest of the turn finds it.
\<close>

record tick_env =
  connect_result :: "int \<Rightarrow> int \<Rightarrow> string \<Rightarrow> error option \<times> client"

definition periodic_sync_user :: "tick_env \<Rightarrow> world \<Rightarrow> user \<Rightarrow> world" where
  "periodic_sync_user env w u =
     (if crashed w then w
      else if \<not> user_IsActive u then w
      else (case GetActiveAuthSessionByUserID (store w) (user_ID u) of
              Inl err \<Rightarrow> w
            | Inr session \<Rightarrow>
                (case connect_result env (user_ID u) (sess_AppID session) (sess_AppHash session) of
                   (Some err, c) \<Rightarrow> w
                 | (None, c) \<Rightarrow>
                     (case IsAuthenticated c of
                        Inl panic \<Rightarrow> w\<lparr>crashed := True\<rparr>
                      | Inr authenticated \<Rightarrow>
                          (if \<not> authenticated
                           then save_user (u\<lparr>user_IsActive := False\<rparr>) w
                           else autoSyncUser c (user_ID u) w)))))"

definition periodic_sync :: "tick_env \<Rightarrow> world \<Rightarrow> world" where
  "periodic_sync env w =
     (if crashed w then w
      else (case GetUsers (store w) of
              Inl err \<Rightarrow> w
            | Inr users \<Rightarrow> foldl (periodic_sync_user env) w users))"

section \<open>Notions used to state the properties\<close>

subsection \<open>About the normaliser\<close>

text \<open>
  The media name the attribute loop ends with when it runs over file-name attributes:
  the name of the last one, starting from \<open>n\<close>.
\<close>

fun last_file_name :: "string \<Rightarrow> document_attribute list \<Rightarrow> string" where
  "last_file_name n [] = n"
| "last_file_name n (DocumentAttributeFilename f # as) = last_file_name f as"
| "last_file_name n (a # as) = last_file_name n as"

fun video_or_filename :: "document_attribute \<Rightarrow> bool" where
  "video_or_filename DocumentAttributeVideo = True"
| "video_or_filename (DocumentAttributeFilename f) = True"
| "video_or_filename a = False"

text \<open>
  Width times height of a photo variant that is a \<open>*tg.PhotoSize\<close>, the only kind of
  variant \<open>getPhotoURL\<close> compares; no value for the other kinds.
\<close>

fun plain_area :: "photo_size \<Rightarrow> int option" where
  "plain_area (PhotoSize w h sz) = Some (sint w * sint h)"
| "plain_area other = None"

subsection \<open>Concrete inputs\<close>

definition example_message :: "string \<Rightarrow> message_media option \<Rightarrow> tg_message" where
  "example_message body media =
     \<lparr>tgm_ID = 1, tgm_FromID = None, tgm_PeerID = None, tgm_Message = body,
      tgm_Media = media, tgm_Date = 0\<rparr>"

text \<open>A remote platform that rejects every request, and variations of it.\<close>

definition unreachable_remote :: remote where
  "unreachable_remote =
     \<lparr>MessagesGetHistory = (\<lambda>p limit. Inl (RemoteError ''PEER_ID_INVALID'')),
      UpdatesGetDifference = (\<lambda>pts date qts. Inl (RemoteError ''TIMEOUT'')),
      UpdatesGetState = Inl (RemoteError ''TIMEOUT''),
      UsersGetFullUser = None,
      MessagesGetDialogs = Inr []\<rparr>"

definition connected :: "remote \<Rightarrow> client" where
  "connected r = \<lparr>isConnected = True, api = Some r\<rparr>"

definition channels_only_remote :: remote where
  "channels_only_remote =
     unreachable_remote\<lparr>MessagesGetHistory :=
       (\<lambda>p limit. case p of
            InputPeerChannel i h \<Rightarrow> Inr (MessagesChannelMessages [] [])
          | _ \<Rightarrow> Inl (RemoteError ''PEER_ID_INVALID''))\<rparr>"

definition quiet_remote :: "int \<Rightarrow> remote" where
  "quiet_remote now =
     unreachable_remote\<lparr>UpdatesGetDifference :=
       (\<lambda>pts date qts. Inr (UpdatesDifferenceEmpty now 3))\<rparr>"

definition snapshot_remote :: "updates_state \<Rightarrow> remote" where
  "snapshot_remote st = unreachable_remote\<lparr>UpdatesGetState := Inr st\<rparr>"

text \<open>
  The text the driver writes for a time of the first day of 1970 (second 0 to 86399,
  which covers the rows of the examples) in a process whose zone is UTC, and a database
  without rows and without failures whose time columns hold that text.
\<close>

definition two_digits :: "nat \<Rightarrow> string" where
  "two_digits n = [digit_char (n div 10), digit_char n]"

definition first_day_utc :: "int \<Rightarrow> string" where
  "first_day_utc t =
     ''1970-01-01 '' @ two_digits (nat t div 3600) @ '':'' @ two_digits (nat t div 60 mod 60)
       @ '':'' @ two_digits (nat t mod 60) @ ''+00:00''"

definition empty_database :: database where
  "empty_database =
     \<lparr>users_table = [], conversations_table = [], messages_table = [], messages_seq = 0,
      auth_sessions_table = [], updates_state_table = (\<lambda>u. None),
      updated_at_column = (\<lambda>u. first_day_utc 0), user_tie = (\<lambda>u. 0),
      last_time_column = (\<lambda>conv. first_day_utc (conv_LastTime conv)),
      conversation_tie = (\<lambda>conv. 0),
      timestamp_column = (\<lambda>m. first_day_utc (msg_Timestamp m)), message_tie = (\<lambda>m. 0),
      created_at_column = (\<lambda>s. first_day_utc 0), session_tie = (\<lambda>s. 0),
      read_failure = (\<lambda>q. None), updates_state_failure = (\<lambda>u. None)\<rparr>"

definition fresh_world :: "database \<Rightarrow> world" where
  "fresh_world d = \<lparr>store = d, trace = [], crashed = False\<rparr>"

definition with_cursor :: "int \<Rightarrow> updates_state \<Rightarrow> database \<Rightarrow> database" where
  "with_cursor userID st d =
     d\<lparr>updates_state_table := (updates_state_table d)(userID := Some st)\<rparr>"

text \<open>A stored message row, a channel conversation, and a remote platform that answers
  the history request for that channel with text messages of the given ids.\<close>

definition stored_row :: "int \<Rightarrow> int \<Rightarrow> int \<Rightarrow> int \<Rightarrow> message" where
  "stored_row userID conversationID messageID time =
     \<lparr>msg_ID = 0, msg_UserID = userID, msg_ConversationID = conversationID,
      msg_MessageID = messageID, msg_FromID = 0, msg_FromUsername = '''',
      msg_FromFirstName = '''', msg_FromLastName = '''', msg_Content = ''stored'',
      msg_MessageType = ''text'', msg_MediaURL = '''', msg_Timestamp = time\<rparr>"

definition example_channel :: conversation where
  "example_channel =
     \<lparr>conv_ID = 9, conv_UserID = 1, conv_Type = ''channel'', conv_Title = ''news'',
      conv_Username = '''', conv_AvatarURL = '''', conv_AccessHash = ''77'',
      conv_LastMessage = '''', conv_LastTime = 0\<rparr>"

definition text_message :: "int \<Rightarrow> message_class" where
  "text_message i =
     Message \<lparr>tgm_ID = i, tgm_FromID = None, tgm_PeerID = Some (PeerChannel 9),
              tgm_Message = ''post'', tgm_Media = None, tgm_Date = 2000 + i\<rparr>"

definition channel_remote :: "int list \<Rightarrow> remote" where
  "channel_remote ids =
     unreachable_remote\<lparr>MessagesGetHistory :=
       (\<lambda>p limit. if p = InputPeerChannel 9 77
                   then Inr (MessagesChannelMessages (map text_message ids) [])
                   else Inl (RemoteError ''PEER_ID_INVALID''))\<rparr>"

text \<open>A remote platform that lists that channel as the only dialog, answers its history
  request with text messages of the given ids, and gives the state snapshot \<open>st\<close>.\<close>

definition bootstrap_remote :: "int list \<Rightarrow> updates_state \<Rightarrow> remote" where
  "bootstrap_remote ids st =
     (channel_remote ids)\<lparr>UpdatesGetState := Inr st, MessagesGetDialogs := Inr [example_channel]\<rparr>"

text \<open>Two active users with a session each, the first saved last, and a tick in which
  the remote platform rejects the session of the first.\<close>

definition example_user :: "int \<Rightarrow> user" where
  "example_user i =
     \<lparr>user_ID = i, user_FirstName = ''user'', user_LastName = '''', user_Username = '''',
      user_Phone = '''', user_IsActive = True, user_LastSyncTime = 0\<rparr>"

definition example_session :: "int \<Rightarrow> auth_session" where
  "example_session i =
     \<lparr>sess_ID = i, sess_UserID = i, sess_IsActive = True, sess_AppID = 1000 + i,
      sess_AppHash = ''hash''\<rparr>"

definition two_user_database :: database where
  "two_user_database =
     empty_database\<lparr>users_table := [example_user 2, example_user 1],
                     auth_sessions_table := [example_session 1, example_session 2],
                     updated_at_column := (\<lambda>u. first_day_utc (if user_ID u = 1 then 120 else 60))\<rparr>"

definition first_user_rejected :: tick_env where
  "first_user_rejected =
     \<lparr>connect_result = (\<lambda>userID appID appHash.
         if userID = 1
         then (None, connected (unreachable_remote\<lparr>UsersGetFullUser :=
                                   Some (RemoteError ''AUTH_KEY_UNREGISTERED'')\<rparr>))
         else (None, connected unreachable_remote))\<rparr>"

subsection \<open>About the trace of a pass\<close>

text \<open>
  \<open>mode_event\<close> holds of the call that opens a mode of the pass: the dialog listing of
  the initial full sync, the difference request of the incremental sync.
  \<open>cursor_write\<close> holds of a write of the sync cursor. \<open>quiet\<close> holds of the effects of
  fetching and storing messages and conversations, and \<open>quiet_step\<close> relates a state to a
  later one reached by such effects only, with the stored cursors untouched.
  \<open>saved_message_ids\<close> lists the remote ids of the messages handed to \<open>SaveMessage\<close>, and
  \<open>without_saved_messages\<close> drops those events. \<open>fetch_events\<close> gives the effects of
  fetching a history and saving all of it for a user, from the outcome of the fetch: the
  requests sent and, when the fetch succeeds, a \<open>SaveMessage\<close> of every fetched message
  in order, with the user's id set.
\<close>

fun mode_event :: "event \<Rightarrow> bool" where
  "mode_event CalledGetDialogs = True"
| "mode_event (CalledGetUpdates p d q) = True"
| "mode_event e = False"

fun cursor_write :: "event \<Rightarrow> bool" where
  "cursor_write (CalledSaveUpdatesState u st) = True"
| "cursor_write e = False"

fun quiet :: "event \<Rightarrow> bool" where
  "quiet (SentGetHistory p limit) = True"
| "quiet (CalledSaveMessage m) = True"
| "quiet (CalledSaveConversation conv) = True"
| "quiet e = False"

definition quiet_step :: "world \<Rightarrow> world \<Rightarrow> bool" where
  "quiet_step w w' =
     ((\<exists>es. trace w' = trace w @ es \<and> list_all quiet es)
      \<and> updates_state_table (store w') = updates_state_table (store w))"

fun saved_message_ids :: "event list \<Rightarrow> int list" where
  "saved_message_ids [] = []"
| "saved_message_ids (CalledSaveMessage m # es) = msg_MessageID m # saved_message_ids es"
| "saved_message_ids (e # es) = saved_message_ids es"

fun without_saved_messages :: "event list \<Rightarrow> event list" where
  "without_saved_messages [] = []"
| "without_saved_messages (CalledSaveMessage m # es) = without_saved_messages es"
| "without_saved_messages (e # es) = e # without_saved_messages es"

definition fetch_events ::
  "int \<Rightarrow> history_request list \<times> (error + message list) \<Rightarrow> event list" where
  "fetch_events userID outcome =
     (case outcome of
        (requests, Inl err) \<Rightarrow> map (\<lambda>(p, limit). SentGetHistory p limit) requests
      | (requests, Inr messages) \<Rightarrow>
          map (\<lambda>(p, limit). SentGetHistory p limit) requests
          @ map (\<lambda>m. CalledSaveMessage (m\<lparr>msg_UserID := userID\<rparr>)) messages)"

subsection \<open>The watermark in the spec's words\<close>

text \<open>
  Modelled on the spec's sentence, for comparison with \<open>latest_message_id\<close>: the
  maximum \<open>remoteMessageID\<close> stored for the user and the conversation, 0 if none is
  stored.
\<close>

definition spec_watermark :: "database \<Rightarrow> int \<Rightarrow> int \<Rightarrow> int" where
  "spec_watermark d userID conversationID =
     foldl max 0
       (map msg_MessageID
          (filter (\<lambda>x. msg_UserID x = userID \<and> msg_ConversationID x = conversationID)
             (messages_table d)))"

section \<open>Properties\<close>

subsection \<open>Message normalisation: document media\<close>

lemma fold_attrs_mediaURL: "mediaURL (foldl attribute_step v attrs) = mediaURL v"
proof (induction attrs arbitrary: v)
  case Nil then show ?case by simp
next
  case (Cons a attrs)
  show ?case by (cases a) (simp_all add: Cons placeholder_def Let_def)
qed

lemma fold_attrs_mediaName:
  "list_all video_or_filename attrs \<Longrightarrow>
   mediaName (foldl attribute_step v attrs) = last_file_name (mediaName v) attrs"
proof (induction attrs arbitrary: v)
  case Nil then show ?case by simp
next
  case (Cons a attrs)
  then show ?case by (cases a) (simp_all add: placeholder_def)
qed

lemma fold_attrs_messageType:
  "list_all video_or_filename attrs \<Longrightarrow>
   messageType (foldl attribute_step v attrs) =
     (if DocumentAttributeVideo \<in> set attrs then ''video'' else messageType v)"
proof (induction attrs arbitrary: v)
  case Nil then show ?case by simp
next
  case (Cons a attrs)
  then show ?case by (cases a) (simp_all add: placeholder_def)
qed

lemma fold_attrs_content:
  "list_all video_or_filename attrs \<Longrightarrow>
   content (foldl attribute_step v attrs) =
     (if DocumentAttributeVideo \<in> set attrs \<and> content v = '''' then ''[Video]'' else content v)"
proof (induction attrs arbitrary: v)
  case Nil then show ?case by simp
next
  case (Cons a attrs)
  then show ?case by (cases a) (simp_all add: placeholder_def)
qed

text \<open>
  C4, as the code has it. For a raw message whose media is a document with video and
  file-name attributes only: the kind is \<open>video\<close> when a video attribute is present and
  \<open>document\<close> otherwise; the body is the raw text, or the placeholder \<open>[Video]\<close> or
  \<open>[Document]\<close> when the raw text is empty, always followed by the annotated suffix: a
  line feed, the folder glyph, a space and the media name. The media name is the last
  file name, or \<open>video.file\<close> or \<open>document.file\<close> when there is none. So the text
  \<open>see attached\<close> with the file name \<open>report.pdf\<close> gives kind \<open>document\<close> and the body
  \<open>see attached\<close>, suffix, \<open>report.pdf\<close>; and an empty text with a video attribute gives
  kind \<open>video\<close> and a body that starts with \<open>[Video]\<close> and goes on with the suffix.
\<close>

theorem document_media_normalisation:
  assumes media: "tgm_Media msg = Some (MessageMediaDocument (Some (Document docID docSize attrs)))"
      and only: "list_all video_or_filename attrs"
  shows "msg_MessageType (parseMessageWithUsers msg users) =
           (if DocumentAttributeVideo \<in> set attrs then ''video'' else ''document'')
       \<and> msg_Content (parseMessageWithUsers msg users) =
           (if tgm_Message msg = ''''
            then (if DocumentAttributeVideo \<in> set attrs then ''[Video]'' else ''[Document]'')
            else tgm_Message msg)
           @ media_name_separator
           @ (if last_file_name '''' attrs = ''''
              then (if DocumentAttributeVideo \<in> set attrs then ''video.file'' else ''document.file'')
              else last_file_name '''' attrs)"
  using media
  by (simp add: parseMessageWithUsers_def Let_def placeholder_def
      fold_attrs_mediaName [OF only] fold_attrs_messageType [OF only] fold_attrs_content [OF only])

theorem document_media_normalisation_witness:
  "tgm_Media (example_message ''see attached''
      (Some (MessageMediaDocument (Some (Document 5 6 [DocumentAttributeFilename ''report.pdf''])))))
     = Some (MessageMediaDocument (Some (Document 5 6 [DocumentAttributeFilename ''report.pdf''])))
   \<and> list_all video_or_filename [DocumentAttributeFilename ''report.pdf'']
   \<and> msg_MessageType (parseMessageWithUsers (example_message ''see attached''
        (Some (MessageMediaDocument (Some (Document 5 6 [DocumentAttributeFilename ''report.pdf''])))))
        []) = ''document''
   \<and> msg_Content (parseMessageWithUsers (example_message ''see attached''
        (Some (MessageMediaDocument (Some (Document 5 6 [DocumentAttributeFilename ''report.pdf''])))))
        []) = ''see attached'' @ media_name_separator @ ''report.pdf''
   \<and> list_all video_or_filename [DocumentAttributeVideo, DocumentAttributeFilename ''clip.mp4'']
   \<and> msg_MessageType (parseMessageWithUsers (example_message ''''
        (Some (MessageMediaDocument (Some (Document 5 6
           [DocumentAttributeVideo, DocumentAttributeFilename ''clip.mp4''])))))
        []) = ''video''
   \<and> msg_Content (parseMessageWithUsers (example_message ''''
        (Some (MessageMediaDocument (Some (Document 5 6
           [DocumentAttributeVideo, DocumentAttributeFilename ''clip.mp4''])))))
        []) = ''[Video]'' @ media_name_separator @ ''clip.mp4''"
  using document_media_normalisation
          [of "example_message ''see attached''
                 (Some (MessageMediaDocument (Some (Document 5 6 [DocumentAttributeFilename ''report.pdf'']))))"
              5 6 "[DocumentAttributeFilename ''report.pdf'']" "[]"]
        document_media_normalisation
          [of "example_message ''''
                 (Some (MessageMediaDocument (Some (Document 5 6
                    [DocumentAttributeVideo, DocumentAttributeFilename ''clip.mp4'']))))"
              5 6 "[DocumentAttributeVideo, DocumentAttributeFilename ''clip.mp4'']" "[]"]
  by (simp add: example_message_def)

text \<open>
  C4 as stated fails on its first half: an empty text with a single video attribute gives
  the kind \<open>video\<close>, but the body is not \<open>[Video]\<close>. The document branch sets the media
  name to \<open>video.file\<close> when no attribute gave one, and the name is then appended to the
  placeholder like to any non-empty body.
\<close>

theorem video_body_counterexample:
  "tgm_Message (example_message ''''
      (Some (MessageMediaDocument (Some (Document 5 6 [DocumentAttributeVideo]))))) = ''''
   \<and> msg_MessageType (parseMessageWithUsers (example_message ''''
        (Some (MessageMediaDocument (Some (Document 5 6 [DocumentAttributeVideo]))))) [])
       = ''video''
   \<and> msg_Content (parseMessageWithUsers (example_message ''''
        (Some (MessageMediaDocument (Some (Document 5 6 [DocumentAttributeVideo]))))) [])
       = ''[Video]'' @ media_name_separator @ ''video.file''
   \<and> msg_Content (parseMessageWithUsers (example_message ''''
        (Some (MessageMediaDocument (Some (Document 5 6 [DocumentAttributeVideo]))))) [])
       \<noteq> ''[Video]''"
  by (simp add: example_message_def parseMessageWithUsers_def placeholder_def Let_def
      media_name_separator_def)

subsection \<open>Message normalisation: photo media\<close>

lemma largest_size_cases:
  "(largest_size sizes m b = b \<and> (\<forall>s\<in>set sizes. \<forall>a. plain_area s = Some a \<longrightarrow> a \<le> m))
   \<or> (\<exists>pre w h sz post.
         sizes = pre @ PhotoSize w h sz # post
         \<and> largest_size sizes m b = Some (PhotoSize w h sz)
         \<and> m < sint w * sint h
         \<and> (\<forall>s\<in>set pre. \<forall>a. plain_area s = Some a \<longrightarrow> a < sint w * sint h)
         \<and> (\<forall>s\<in>set post. \<forall>a. plain_area s = Some a \<longrightarrow> a \<le> sint w * sint h))"
proof (induction sizes arbitrary: m b)
  case Nil
  show ?case by simp
next
  case (Cons x sizes)
  show ?case
  proof (cases "\<exists>w h sz. x = PhotoSize w h sz \<and> m < sint w * sint h")
    case True
    then obtain w h sz where x: "x = PhotoSize w h sz" and gt: "m < sint w * sint h" by blast
    let ?a = "sint w * sint h"
    have step: "largest_size (x # sizes) m b = largest_size sizes ?a (Some x)"
      using x gt by simp
    from Cons.IH [of ?a "Some x"] show ?thesis
    proof (elim disjE conjE exE)
      assume same: "largest_size sizes ?a (Some x) = Some x"
        and le: "\<forall>s\<in>set sizes. \<forall>a. plain_area s = Some a \<longrightarrow> a \<le> ?a"
      have "x # sizes = [] @ PhotoSize w h sz # sizes" using x by simp
      moreover have "largest_size (x # sizes) m b = Some (PhotoSize w h sz)"
        using step same x by simp
      ultimately show ?thesis using gt le by (intro disjI2 exI conjI) auto
    next
      fix pre w' h' sz' post
      assume split: "sizes = pre @ PhotoSize w' h' sz' # post"
        and res: "largest_size sizes ?a (Some x) = Some (PhotoSize w' h' sz')"
        and gt': "?a < sint w' * sint h'"
        and before: "\<forall>s\<in>set pre. \<forall>a. plain_area s = Some a \<longrightarrow> a < sint w' * sint h'"
        and after: "\<forall>s\<in>set post. \<forall>a. plain_area s = Some a \<longrightarrow> a \<le> sint w' * sint h'"
      have "x # sizes = (x # pre) @ PhotoSize w' h' sz' # post" using split by simp
      moreover have "largest_size (x # sizes) m b = Some (PhotoSize w' h' sz')"
        using step res by simp
      moreover have "m < sint w' * sint h'" using gt gt' by linarith
      moreover have "\<forall>s\<in>set (x # pre). \<forall>a. plain_area s = Some a \<longrightarrow> a < sint w' * sint h'"
        using before gt' x by auto
      ultimately show ?thesis using after by blast
    qed
  next
    case False
    have step: "largest_size (x # sizes) m b = largest_size sizes m b"
      using False by (cases x) (auto simp: Let_def)
    have xle: "\<forall>a. plain_area x = Some a \<longrightarrow> a \<le> m"
      using False by (cases x) (auto simp: not_less)
    from Cons.IH [of m b] show ?thesis
    proof (elim disjE conjE exE)
      assume "largest_size sizes m b = b"
        and "\<forall>s\<in>set sizes. \<forall>a. plain_area s = Some a \<longrightarrow> a \<le> m"
      then show ?thesis using step xle by auto
    next
      fix pre w' h' sz' post
      assume split: "sizes = pre @ PhotoSize w' h' sz' # post"
        and res: "largest_size sizes m b = Some (PhotoSize w' h' sz')"
        and gt': "m < sint w' * sint h'"
        and before: "\<forall>s\<in>set pre. \<forall>a. plain_area s = Some a \<longrightarrow> a < sint w' * sint h'"
        and after: "\<forall>s\<in>set post. \<forall>a. plain_area s = Some a \<longrightarrow> a \<le> sint w' * sint h'"
      have "x # sizes = (x # pre) @ PhotoSize w' h' sz' # post" using split by simp
      moreover have "largest_size (x # sizes) m b = Some (PhotoSize w' h' sz')"
        using step res by simp
      moreover have "\<forall>s\<in>set (x # pre). \<forall>a. plain_area s = Some a \<longrightarrow> a < sint w' * sint h'"
        using before gt' xle by auto
      ultimately show ?thesis using gt' after by blast
    qed
  qed
qed

lemma getPhotoURL_cases:
  "((\<forall>s\<in>set sizes. \<forall>a. plain_area s = Some a \<longrightarrow> a \<le> 0) \<and> getPhotoURL photoID sizes = '''')
   \<or> (\<exists>pre w h sz post.
         sizes = pre @ PhotoSize w h sz # post
         \<and> getPhotoURL photoID sizes = ''telegram://photo/'' @ show_int photoID @ ''_'' @ show_int sz
         \<and> 0 < sint w * sint h
         \<and> (\<forall>s\<in>set pre. \<forall>a. plain_area s = Some a \<longrightarrow> a < sint w * sint h)
         \<and> (\<forall>s\<in>set post. \<forall>a. plain_area s = Some a \<longrightarrow> a \<le> sint w * sint h))"
proof -
  from largest_size_cases [of sizes 0 None] show ?thesis
  proof (elim disjE conjE exE)
    assume "largest_size sizes 0 None = None"
      and "\<forall>s\<in>set sizes. \<forall>a. plain_area s = Some a \<longrightarrow> a \<le> 0"
    then show ?thesis by (simp add: getPhotoURL_def)
  next
    fix pre w h sz post
    assume split: "sizes = pre @ PhotoSize w h sz # post"
      and res: "largest_size sizes 0 None = Some (PhotoSize w h sz)"
      and gt: "0 < sint w * sint h"
      and before: "\<forall>s\<in>set pre. \<forall>a. plain_area s = Some a \<longrightarrow> a < sint w * sint h"
      and after: "\<forall>s\<in>set post. \<forall>a. plain_area s = Some a \<longrightarrow> a \<le> sint w * sint h"
    have "sizes \<noteq> []" using split by simp
    then have "getPhotoURL photoID sizes = ''telegram://photo/'' @ show_int photoID @ ''_'' @ show_int sz"
      using res by (simp add: getPhotoURL_def)
    then show ?thesis using split gt before after by blast
  qed
qed

text \<open>
  C8, as the code has it. For a raw message that carries photo media the kind is \<open>photo\<close>
  and the body is the raw text, or \<open>[Photo]\<close> when the raw text is empty. When the media
  holds a photo with its variants, the media reference is built from the photo id and
  the byte size of one variant: a variant that is a plain \<open>PhotoSize\<close> with a positive
  width times height, at least as large as every plain \<open>PhotoSize\<close> variant after it and
  strictly larger than every one before it (the earliest of the largest). Variants of
  the other kinds are not looked at, and when no plain \<open>PhotoSize\<close> variant has a positive
  area the reference is empty, as it is when the media holds no photo.
\<close>

theorem photo_media_normalisation:
  assumes media: "tgm_Media msg = Some (MessageMediaPhoto p)"
  shows "msg_MessageType (parseMessageWithUsers msg users) = ''photo''
       \<and> msg_Content (parseMessageWithUsers msg users) =
           (if tgm_Message msg = '''' then ''[Photo]'' else tgm_Message msg)
       \<and> (\<forall>photoID sizes. p = Some (Photo photoID sizes) \<longrightarrow>
            ((\<forall>s\<in>set sizes. \<forall>a. plain_area s = Some a \<longrightarrow> a \<le> 0)
               \<and> msg_MediaURL (parseMessageWithUsers msg users) = '''')
            \<or> (\<exists>pre w h sz post.
                  sizes = pre @ PhotoSize w h sz # post
                  \<and> msg_MediaURL (parseMessageWithUsers msg users) =
                      ''telegram://photo/'' @ show_int photoID @ ''_'' @ show_int sz
                  \<and> 0 < sint w * sint h
                  \<and> (\<forall>s\<in>set pre. \<forall>a. plain_area s = Some a \<longrightarrow> a < sint w * sint h)
                  \<and> (\<forall>s\<in>set post. \<forall>a. plain_area s = Some a \<longrightarrow> a \<le> sint w * sint h)))
       \<and> ((\<forall>photoID sizes. p \<noteq> Some (Photo photoID sizes)) \<longrightarrow>
            msg_MediaURL (parseMessageWithUsers msg users) = '''')"
proof (intro conjI allI impI)
  show "msg_MessageType (parseMessageWithUsers msg users) = ''photo''"
    using media by (simp add: parseMessageWithUsers_def Let_def placeholder_def split: option.splits photo.splits)
  show "msg_Content (parseMessageWithUsers msg users) =
           (if tgm_Message msg = '''' then ''[Photo]'' else tgm_Message msg)"
    using media by (simp add: parseMessageWithUsers_def Let_def placeholder_def split: option.splits photo.splits)
next
  fix photoID sizes
  assume p: "p = Some (Photo photoID sizes)"
  have url: "msg_MediaURL (parseMessageWithUsers msg users) = getPhotoURL photoID sizes"
    using media p by (simp add: parseMessageWithUsers_def Let_def placeholder_def)
  show "((\<forall>s\<in>set sizes. \<forall>a. plain_area s = Some a \<longrightarrow> a \<le> 0)
               \<and> msg_MediaURL (parseMessageWithUsers msg users) = '''')
            \<or> (\<exists>pre w h sz post.
                  sizes = pre @ PhotoSize w h sz # post
                  \<and> msg_MediaURL (parseMessageWithUsers msg users) =
                      ''telegram://photo/'' @ show_int photoID @ ''_'' @ show_int sz
                  \<and> 0 < sint w * sint h
                  \<and> (\<forall>s\<in>set pre. \<forall>a. plain_area s = Some a \<longrightarrow> a < sint w * sint h)
                  \<and> (\<forall>s\<in>set post. \<forall>a. plain_area s = Some a \<longrightarrow> a \<le> sint w * sint h))"
    unfolding url by (rule getPhotoURL_cases)
next
  assume "\<forall>photoID sizes. p \<noteq> Some (Photo photoID sizes)"
  then show "msg_MediaURL (parseMessageWithUsers msg users) = ''''"
    using media by (simp add: parseMessageWithUsers_def Let_def placeholder_def split: option.splits photo.splits)
qed

theorem photo_media_normalisation_witness:
  "tgm_Media (example_message '''' (Some (MessageMediaPhoto (Some (Photo 77
      [PhotoSize 90 90 500, PhotoSize 320 180 1000, PhotoSizeProgressive 1280 720,
       PhotoSize 180 320 2000])))))
     = Some (MessageMediaPhoto (Some (Photo 77
      [PhotoSize 90 90 500, PhotoSize 320 180 1000, PhotoSizeProgressive 1280 720,
       PhotoSize 180 320 2000])))
   \<and> msg_MessageType (parseMessageWithUsers (example_message '''' (Some (MessageMediaPhoto
        (Some (Photo 77 [PhotoSize 90 90 500, PhotoSize 320 180 1000,
           PhotoSizeProgressive 1280 720, PhotoSize 180 320 2000]))))) []) = ''photo''
   \<and> msg_Content (parseMessageWithUsers (example_message '''' (Some (MessageMediaPhoto
        (Some (Photo 77 [PhotoSize 90 90 500, PhotoSize 320 180 1000,
           PhotoSizeProgressive 1280 720, PhotoSize 180 320 2000]))))) []) = ''[Photo]''
   \<and> msg_MediaURL (parseMessageWithUsers (example_message '''' (Some (MessageMediaPhoto
        (Some (Photo 77 [PhotoSize 90 90 500, PhotoSize 320 180 1000,
           PhotoSizeProgressive 1280 720, PhotoSize 180 320 2000]))))) [])
       = ''telegram://photo/77_1000''"
  using photo_media_normalisation
          [of "example_message '''' (Some (MessageMediaPhoto (Some (Photo 77
                 [PhotoSize 90 90 500, PhotoSize 320 180 1000, PhotoSizeProgressive 1280 720,
                  PhotoSize 180 320 2000]))))"
              "Some (Photo 77 [PhotoSize 90 90 500, PhotoSize 320 180 1000,
                  PhotoSizeProgressive 1280 720, PhotoSize 180 320 2000])" "[]"]
  by (simp add: example_message_def parseMessageWithUsers_def placeholder_def Let_def
      getPhotoURL_def show_int_def digit_char_def)

text \<open>
  C8 as stated fails on the media reference. Here the photo has two variants, a plain
  \<open>PhotoSize\<close> of area 0 and a progressive one of 1280 by 720: whichever of the two counts
  as the variant of largest width times height, the reference selects neither, it is
  empty.
\<close>

theorem photo_reference_counterexample:
  "msg_MessageType (parseMessageWithUsers (example_message '''' (Some (MessageMediaPhoto
      (Some (Photo 77 [PhotoSize 0 0 5, PhotoSizeProgressive 1280 720]))))) []) = ''photo''
   \<and> msg_MediaURL (parseMessageWithUsers (example_message '''' (Some (MessageMediaPhoto
      (Some (Photo 77 [PhotoSize 0 0 5, PhotoSizeProgressive 1280 720]))))) []) = ''''"
  by (simp add: example_message_def parseMessageWithUsers_def placeholder_def Let_def
      getPhotoURL_def)

subsection \<open>Peer resolution\<close>

lemma choose_peer_unknown:
  "convType \<notin> {''user'', ''bot'', ''channel'', ''group''} \<Longrightarrow>
   choose_peer peerID convType accessHash = Fallback"
  by (simp add: choose_peer_def)

text \<open>
  C5. For a conversation whose declared type is none of \<open>user\<close>, \<open>bot\<close>, \<open>channel\<close>,
  \<open>group\<close>, and a connected client: the history is requested user-style first; only
  when that request fails, channel-style; only when that fails too, chat-style. The
  requests stop at the first one that succeeds, the result is the normalised answer of
  that request, and the operation returns an error exactly when all three fail.
\<close>

theorem peer_fallback_order:
  assumes conn: "isConnected c" and api: "api c = Some r"
      and unknown: "convType \<notin> {''user'', ''bot'', ''channel'', ''group''}"
  shows "(\<forall>m. MessagesGetHistory r (InputPeerUser peerID 0) limit = Inr m \<longrightarrow>
            GetMessagesWithConvInfo c peerID limit convType accessHash =
              ([(InputPeerUser peerID 0, limit)], Inr (parseMessagesResponse m peerID)))
       \<and> (\<forall>e1 m. MessagesGetHistory r (InputPeerUser peerID 0) limit = Inl e1
                 \<and> MessagesGetHistory r (InputPeerChannel peerID 0) limit = Inr m \<longrightarrow>
            GetMessagesWithConvInfo c peerID limit convType accessHash =
              ([(InputPeerUser peerID 0, limit), (InputPeerChannel peerID 0, limit)],
               Inr (parseMessagesResponse m peerID)))
       \<and> (\<forall>e1 e2 m. MessagesGetHistory r (InputPeerUser peerID 0) limit = Inl e1
                 \<and> MessagesGetHistory r (InputPeerChannel peerID 0) limit = Inl e2
                 \<and> MessagesGetHistory r (InputPeerChat peerID) limit = Inr m \<longrightarrow>
            GetMessagesWithConvInfo c peerID limit convType accessHash =
              ([(InputPeerUser peerID 0, limit), (InputPeerChannel peerID 0, limit),
                (InputPeerChat peerID, limit)],
               Inr (parseMessagesResponse m peerID)))
       \<and> (\<forall>e1 e2 e3. MessagesGetHistory r (InputPeerUser peerID 0) limit = Inl e1
                 \<and> MessagesGetHistory r (InputPeerChannel peerID 0) limit = Inl e2
                 \<and> MessagesGetHistory r (InputPeerChat peerID) limit = Inl e3 \<longrightarrow>
            GetMessagesWithConvInfo c peerID limit convType accessHash =
              ([(InputPeerUser peerID 0, limit), (InputPeerChannel peerID 0, limit),
                (InputPeerChat peerID, limit)],
               Inl (FailedToGetMessages e3)))
       \<and> (isl (snd (GetMessagesWithConvInfo c peerID limit convType accessHash)) \<longleftrightarrow>
            isl (MessagesGetHistory r (InputPeerUser peerID 0) limit)
            \<and> isl (MessagesGetHistory r (InputPeerChannel peerID 0) limit)
            \<and> isl (MessagesGetHistory r (InputPeerChat peerID) limit))"
proof -
  have eq: "GetMessagesWithConvInfo c peerID limit convType accessHash =
            getMessagesWithFallback c peerID limit convType accessHash"
    using conn choose_peer_unknown [OF unknown] by (simp add: GetMessagesWithConvInfo_def)
  show ?thesis
    unfolding eq
    by (simp add: getMessagesWithFallback_def api Let_def split: sum.splits)
qed

theorem peer_fallback_order_witness:
  "isConnected (connected channels_only_remote)
   \<and> api (connected channels_only_remote) = Some channels_only_remote
   \<and> ''legacy'' \<notin> {''user'', ''bot'', ''channel'', ''group''}
   \<and> MessagesGetHistory channels_only_remote (InputPeerUser 42 0) 50 = Inl (RemoteError ''PEER_ID_INVALID'')
   \<and> MessagesGetHistory channels_only_remote (InputPeerChannel 42 0) 50 = Inr (MessagesChannelMessages [] [])
   \<and> GetMessagesWithConvInfo (connected channels_only_remote) 42 50 ''legacy'' '''' =
       ([(InputPeerUser 42 0, 50), (InputPeerChannel 42 0, 50)], Inr [])"
  using peer_fallback_order [of "connected channels_only_remote" channels_only_remote "''legacy''" 42 50 "''''"]
  by (simp add: connected_def channels_only_remote_def unreachable_remote_def)

lemma ParseInt_empty: "ParseInt '''' = Inl ErrSyntax"
  by (simp add: ParseInt_def)

text \<open>
  C6, as the code has it. A conversation of type \<open>channel\<close> whose access hash is empty
  or does not parse as a signed 64-bit decimal integer: the fetch sends no request and
  returns an error. A conversation of type \<open>group\<close>, on a connected client: with an
  access hash that parses, the one request sent is channel-style with that hash; with
  an empty access hash, it is chat-style; with an access hash that is present but does
  not parse, no request is sent and the fetch returns an error. The channel sync leaves
  everything as it is for a conversation whose access hash is empty.
\<close>

theorem typed_peer_resolution:
  "((accessHash = '''' \<or> isl (ParseInt accessHash)) \<longrightarrow>
      fst (GetMessagesWithConvInfo c peerID limit ''channel'' accessHash) = []
      \<and> isl (snd (GetMessagesWithConvInfo c peerID limit ''channel'' accessHash)))
   \<and> (\<forall>r. isConnected c \<and> api c = Some r \<longrightarrow>
        (\<forall>hash. ParseInt accessHash = Inr hash \<longrightarrow>
           fst (GetMessagesWithConvInfo c peerID limit ''group'' accessHash) =
             [(InputPeerChannel peerID hash, limit)])
        \<and> (accessHash = '''' \<longrightarrow>
           fst (GetMessagesWithConvInfo c peerID limit ''group'' accessHash) =
             [(InputPeerChat peerID, limit)])
        \<and> (accessHash \<noteq> '''' \<and> isl (ParseInt accessHash) \<longrightarrow>
           GetMessagesWithConvInfo c peerID limit ''group'' accessHash =
             ([], Inl SupergroupRequiresValidAccessHash)))
   \<and> (conv_AccessHash conv = '''' \<longrightarrow> channel_sync_conv c userID w conv = w)"
proof (intro conjI allI impI)
  assume "accessHash = '''' \<or> isl (ParseInt accessHash)"
  then show "fst (GetMessagesWithConvInfo c peerID limit ''channel'' accessHash) = []"
    by (auto simp: GetMessagesWithConvInfo_def choose_peer_def split: sum.splits)
next
  assume "accessHash = '''' \<or> isl (ParseInt accessHash)"
  then show "isl (snd (GetMessagesWithConvInfo c peerID limit ''channel'' accessHash))"
    by (auto simp: GetMessagesWithConvInfo_def choose_peer_def split: sum.splits)
next
  fix r hash
  assume "isConnected c \<and> api c = Some r" and p: "ParseInt accessHash = Inr hash"
  moreover have "accessHash \<noteq> ''''" using p ParseInt_empty by auto
  ultimately show "fst (GetMessagesWithConvInfo c peerID limit ''group'' accessHash) =
             [(InputPeerChannel peerID hash, limit)]"
    by (simp add: GetMessagesWithConvInfo_def choose_peer_def split: sum.splits)
next
  fix r
  assume "isConnected c \<and> api c = Some r" and "accessHash = ''''"
  then show "fst (GetMessagesWithConvInfo c peerID limit ''group'' accessHash) =
             [(InputPeerChat peerID, limit)]"
    by (simp add: GetMessagesWithConvInfo_def choose_peer_def split: sum.splits)
next
  fix r
  assume "isConnected c \<and> api c = Some r" and "accessHash \<noteq> '''' \<and> isl (ParseInt accessHash)"
  then show "GetMessagesWithConvInfo c peerID limit ''group'' accessHash =
             ([], Inl SupergroupRequiresValidAccessHash)"
    by (auto simp: GetMessagesWithConvInfo_def choose_peer_def split: sum.splits)
next
  assume "conv_AccessHash conv = ''''"
  then show "channel_sync_conv c userID w conv = w"
    by (simp add: channel_sync_conv_def)
qed

theorem typed_peer_resolution_witness:
  "isl (ParseInt '''')
   \<and> fst (GetMessagesWithConvInfo (connected channels_only_remote) 5 50 ''channel'' '''') = []
   \<and> isl (snd (GetMessagesWithConvInfo (connected channels_only_remote) 5 50 ''channel'' ''''))
   \<and> isConnected (connected channels_only_remote)
   \<and> api (connected channels_only_remote) = Some channels_only_remote
   \<and> ParseInt ''-1001234'' = Inr (- 1001234)
   \<and> fst (GetMessagesWithConvInfo (connected channels_only_remote) 5 50 ''group'' ''-1001234'')
       = [(InputPeerChannel 5 (- 1001234), 50)]
   \<and> fst (GetMessagesWithConvInfo (connected channels_only_remote) 5 50 ''group'' '''')
       = [(InputPeerChat 5, 50)]
   \<and> isl (ParseInt ''abc'')
   \<and> GetMessagesWithConvInfo (connected channels_only_remote) 5 50 ''group'' ''abc''
       = ([], Inl SupergroupRequiresValidAccessHash)"
  using typed_peer_resolution
          [where c = "connected channels_only_remote" and peerID = 5 and limit = 50
             and accessHash = "''''"]
        typed_peer_resolution
          [where c = "connected channels_only_remote" and peerID = 5 and limit = 50
             and accessHash = "''-1001234''"]
        typed_peer_resolution
          [where c = "connected channels_only_remote" and peerID = 5 and limit = 50
             and accessHash = "''abc''"]
  by (simp add: connected_def ParseInt_def is_digit_def digits_val_def digit_val_def)

text \<open>
  C6 as stated fails on its second part: a group whose access hash is present but is
  not a number is not addressed channel-style; the fetch returns an error and sends
  nothing.
\<close>

theorem group_token_counterexample:
  "isConnected (connected channels_only_remote)
   \<and> ''abc'' \<noteq> ''''
   \<and> GetMessagesWithConvInfo (connected channels_only_remote) 5 50 ''group'' ''abc''
       = ([], Inl SupergroupRequiresValidAccessHash)"
  by (simp add: connected_def GetMessagesWithConvInfo_def choose_peer_def ParseInt_def
      is_digit_def)

subsection \<open>Effects of the steps of a pass\<close>

lemma emit_simps [simp]:
  "trace (emit es w) = trace w @ es" "store (emit es w) = store w" "crashed (emit es w) = crashed w"
  by (simp_all add: emit_def)

lemma save_message_simps [simp]:
  "trace (save_message m w) = trace w @ [CalledSaveMessage m]"
  "store (save_message m w) = SaveMessage m (store w)"
  "crashed (save_message m w) = crashed w"
  by (simp_all add: save_message_def)

lemma save_updates_state_simps [simp]:
  "trace (save_updates_state u st w) = trace w @ [CalledSaveUpdatesState u st]"
  "store (save_updates_state u st w) = SaveUpdatesState u st (store w)"
  "crashed (save_updates_state u st w) = crashed w"
  by (simp_all add: save_updates_state_def)

lemma save_conversation_simps [simp]:
  "trace (save_conversation conv w) = trace w @ [CalledSaveConversation conv]"
  "store (save_conversation conv w) = SaveConversation conv (store w)"
  "crashed (save_conversation conv w) = crashed w"
  by (simp_all add: save_conversation_def)

lemma save_user_simps [simp]:
  "trace (save_user u w) = trace w @ [CalledSaveUser u]"
  "store (save_user u w) = SaveUser u (store w)"
  "crashed (save_user u w) = crashed w"
  by (simp_all add: save_user_def)

lemma sent_simps [simp]:
  "trace (sent rs w) = trace w @ map (\<lambda>(p, limit). SentGetHistory p limit) rs"
  "store (sent rs w) = store w" "crashed (sent rs w) = crashed w"
  by (simp_all add: sent_def)

lemma table_simps [simp]:
  "updates_state_table (SaveMessage m d) = updates_state_table d"
  "updates_state_table (SaveConversation conv d) = updates_state_table d"
  "updates_state_table (SaveUser u d) = updates_state_table d"
  "updates_state_table (SaveUpdatesState userID st d) = (updates_state_table d)(userID := Some st)"
  by (simp_all add: SaveMessage_def SaveConversation_def SaveUser_def SaveUpdatesState_def)

lemma quiet_step_refl: "quiet_step w w"
  by (simp add: quiet_step_def)

lemma quiet_step_trans: "quiet_step a b \<Longrightarrow> quiet_step b c \<Longrightarrow> quiet_step a c"
  by (auto simp: quiet_step_def)

lemma quiet_step_crashed: "quiet_step w w' \<Longrightarrow> quiet_step w (w'\<lparr>crashed := b\<rparr>)"
  by (simp add: quiet_step_def)

lemma quiet_step_sent: "quiet_step w (sent rs w)"
  by (auto simp: quiet_step_def list_all_iff)

lemma quiet_step_save_message: "quiet_step w (save_message m w)"
  by (simp add: quiet_step_def)

lemma quiet_step_save_conversation: "quiet_step w (save_conversation conv w)"
  by (simp add: quiet_step_def)

lemma quiet_step_foldl:
  assumes "\<And>w x. quiet_step w (f w x)"
  shows "quiet_step w (foldl f w xs)"
proof (induction xs arbitrary: w)
  case Nil show ?case by (simp add: quiet_step_refl)
next
  case (Cons x xs)
  have "quiet_step w (f w x)" by (rule assms)
  moreover have "quiet_step (f w x) (foldl f (f w x) xs)" by (rule Cons.IH)
  ultimately show ?case by (simp add: quiet_step_trans)
qed

lemma quiet_step_filter:
  assumes "quiet_step w w'" and "\<And>e. quiet e \<Longrightarrow> \<not> K e"
  shows "filter K (trace w') = filter K (trace w)"
proof -
  from assms(1) obtain es where t: "trace w' = trace w @ es" and q: "list_all quiet es"
    by (auto simp: quiet_step_def)
  have "filter K es = []" using q assms(2) by (auto simp: list_all_iff filter_empty_conv)
  then show ?thesis using t by simp
qed

lemma quiet_step_table: "quiet_step w w' \<Longrightarrow> updates_state_table (store w') = updates_state_table (store w)"
  by (simp add: quiet_step_def)

lemma quiet_step_save_if_newer: "quiet_step w (save_if_newer userID offsetID w msg)"
  by (simp add: save_if_newer_def quiet_step_refl quiet_step_save_message)

lemma quiet_step_channel_sync_conv: "quiet_step w (channel_sync_conv c userID w conv)"
proof -
  have a: "quiet_step w (foldl (save_if_newer userID offsetID) (sent rs w) ms)" for offsetID rs ms
    by (rule quiet_step_trans [OF quiet_step_sent quiet_step_foldl]) (rule quiet_step_save_if_newer)
  show ?thesis
    by (auto simp: channel_sync_conv_def Let_def quiet_step_refl quiet_step_sent a
        intro: quiet_step_crashed split: prod.splits sum.splits)
qed

lemma quiet_step_channel_sync: "quiet_step w (channel_sync c userID w)"
  by (auto simp: channel_sync_def quiet_step_refl split: sum.splits
      intro: quiet_step_foldl quiet_step_channel_sync_conv)

lemma quiet_step_sync_dialog_messages: "quiet_step w (sync_dialog_messages c userID w dialog)"
proof -
  have a: "quiet_step w (foldl (\<lambda>w' msg. save_message (msg\<lparr>msg_UserID := userID\<rparr>) w') (sent rs w) ms)" for rs ms
    by (rule quiet_step_trans [OF quiet_step_sent quiet_step_foldl]) (rule quiet_step_save_message)
  show ?thesis
    by (auto simp: sync_dialog_messages_def quiet_step_refl quiet_step_sent a
        intro: quiet_step_crashed split: prod.splits sum.splits)
qed

lemma quiet_step_save_dialog: "quiet_step w (save_dialog userID w dialog)"
  by (simp add: save_dialog_def quiet_step_save_conversation)

lemma quiet_not_mode: "quiet e \<Longrightarrow> \<not> mode_event e"
  by (cases e) simp_all

lemma quiet_not_cursor: "quiet e \<Longrightarrow> \<not> cursor_write e"
  by (cases e) simp_all

lemma mode_initial_full_sync:
  "filter mode_event (trace (initial_full_sync c userID w)) = filter mode_event (trace w) @ [CalledGetDialogs]"
proof (cases "GetDialogs c")
  case (Inl err)
  then show ?thesis by (simp add: initial_full_sync_def)
next
  case (Inr dialogs)
  let ?w0 = "emit [CalledGetDialogs] w"
  let ?w1 = "foldl (save_dialog userID) ?w0 dialogs"
  let ?w2 = "foldl (sync_dialog_messages c userID) ?w1 dialogs"
  have "quiet_step ?w0 ?w2"
    by (rule quiet_step_trans [OF quiet_step_foldl quiet_step_foldl])
       (rule quiet_step_save_dialog, rule quiet_step_sync_dialog_messages)
  then have f: "filter mode_event (trace ?w2) = filter mode_event (trace w) @ [CalledGetDialogs]"
    using quiet_step_filter [of ?w0 ?w2 mode_event] quiet_not_mode by simp
  show ?thesis
    using Inr f by (simp add: initial_full_sync_def Let_def split: sum.splits)
qed

lemma mode_incremental_sync:
  "filter mode_event (trace (incremental_sync c userID stored w)) =
   filter mode_event (trace w) @ [CalledGetUpdates (Pts stored) (Date stored) (Qts stored)]"
proof -
  let ?w0 = "emit [CalledGetUpdates (Pts stored) (Date stored) (Qts stored)] w"
  have a: "filter mode_event (trace (apply_updates c userID stored w)) =
           filter mode_event (trace w) @ [CalledGetUpdates (Pts stored) (Date stored) (Qts stored)]"
  proof (cases "GetUpdates c (Pts stored) (Date stored) (Qts stored)")
    case (Inl err)
    then show ?thesis by (simp add: apply_updates_def Let_def)
  next
    case (Inr updates)
    let ?w1 = "foldl (\<lambda>w' msg. save_message msg w') ?w0 (ParseUpdatesMessages updates userID)"
    have "quiet_step ?w0 ?w1" by (rule quiet_step_foldl) (rule quiet_step_save_message)
    then have "filter mode_event (trace ?w1) = filter mode_event (trace ?w0)"
      using quiet_step_filter [of ?w0 ?w1 mode_event] quiet_not_mode by blast
    then show ?thesis using Inr by (simp add: apply_updates_def Let_def)
  qed
  show ?thesis using a by (simp add: incremental_sync_def)
qed

lemma messages_only_foldl:
  assumes step: "\<And>v x. \<exists>ms n. store (f v x) = (store v)\<lparr>messages_table := ms, messages_seq := n\<rparr>"
  shows "\<exists>ms n. store (foldl f w xs) = (store w)\<lparr>messages_table := ms, messages_seq := n\<rparr>"
proof (induction xs arbitrary: w)
  case Nil
  have "store w = (store w)\<lparr>messages_table := messages_table (store w),
                             messages_seq := messages_seq (store w)\<rparr>" by simp
  then show ?case by (metis foldl_Nil)
next
  case (Cons x xs)
  from step [of w x] obtain ms n
    where a: "store (f w x) = (store w)\<lparr>messages_table := ms, messages_seq := n\<rparr>" by blast
  from Cons.IH [of "f w x"] obtain ms' n'
    where b: "store (foldl f (f w x) xs) = (store (f w x))\<lparr>messages_table := ms', messages_seq := n'\<rparr>"
    by blast
  have "store (foldl f w (x # xs)) = (store w)\<lparr>messages_table := ms', messages_seq := n'\<rparr>"
    using a b by simp
  then show ?case by blast
qed

lemma messages_only_save_if_newer:
  "\<exists>ms n. store (save_if_newer userID offsetID w msg) =
            (store w)\<lparr>messages_table := ms, messages_seq := n\<rparr>"
proof (cases "offsetID = 0 \<or> msg_MessageID msg > offsetID")
  case True
  then show ?thesis by (simp add: save_if_newer_def SaveMessage_def) blast
next
  case False
  have "store w = (store w)\<lparr>messages_table := messages_table (store w),
                             messages_seq := messages_seq (store w)\<rparr>" by simp
  then show ?thesis using False by (metis save_if_newer_def)
qed

lemma messages_only_channel_sync_conv:
  "\<exists>ms n. store (channel_sync_conv c userID w conv) =
            (store w)\<lparr>messages_table := ms, messages_seq := n\<rparr>"
proof -
  have same: "\<exists>ms n. store w = (store w)\<lparr>messages_table := ms, messages_seq := n\<rparr>"
    by (rule exI [of _ "messages_table (store w)"], rule exI [of _ "messages_seq (store w)"]) simp
  have saved: "\<exists>ms n. store (foldl (save_if_newer userID offsetID) (sent rs w) xs) =
            (store w)\<lparr>messages_table := ms, messages_seq := n\<rparr>" for offsetID rs xs
    using messages_only_foldl [of "save_if_newer userID offsetID" "sent rs w" xs]
          messages_only_save_if_newer
    by simp
  show ?thesis
    using same saved
    by (auto simp: channel_sync_conv_def Let_def split: prod.splits sum.splits)
qed

lemma channel_sync_writes_messages_only:
  "\<exists>ms n. store (channel_sync c userID w) = (store w)\<lparr>messages_table := ms, messages_seq := n\<rparr>"
proof (cases "GetConversationsByUserID (store w) userID")
  case (Inl err)
  have "store w = (store w)\<lparr>messages_table := messages_table (store w),
                             messages_seq := messages_seq (store w)\<rparr>" by simp
  then show ?thesis using Inl by (metis channel_sync_def sum.simps(5))
next
  case (Inr channels)
  show ?thesis
    using Inr messages_only_foldl [of "channel_sync_conv c userID" w channels]
          messages_only_channel_sync_conv
    by (simp add: channel_sync_def)
qed

lemma failure_simps [simp]:
  "updates_state_failure (SaveUpdatesState userID st d) = updates_state_failure d"
  by (simp add: SaveUpdatesState_def)

subsection \<open>Mode selection\<close>

lemma fetch_never_panics:
  "api c = Some r \<Longrightarrow> snd (GetMessagesWithConvInfo c peerID limit convType accessHash) \<noteq> Inl NilDereference"
  by (auto simp: GetMessagesWithConvInfo_def getMessagesWithFallback_def choose_peer_def Let_def
      split: peer_choice.splits sum.splits)

lemma crashed_foldl_save_message:
  "crashed (foldl (\<lambda>w' msg. save_message (f msg) w') w ms) = crashed w"
  by (induction ms arbitrary: w) simp_all

lemma crashed_sync_dialog_messages:
  "api c = Some r \<Longrightarrow> crashed (sync_dialog_messages c userID w dialog) = crashed w"
  using fetch_never_panics [of c r "conv_ID dialog" 50 "conv_Type dialog" "conv_AccessHash dialog"]
  by (auto simp: sync_dialog_messages_def crashed_foldl_save_message split: prod.splits sum.splits)

lemma crashed_foldl_sync_dialog_messages:
  "api c = Some r \<Longrightarrow> crashed (foldl (sync_dialog_messages c userID) w dialogs) = crashed w"
  by (induction dialogs arbitrary: w) (simp_all add: crashed_sync_dialog_messages)

lemma crashed_foldl_save_dialog: "crashed (foldl (save_dialog userID) w dialogs) = crashed w"
  by (induction dialogs arbitrary: w) (simp_all add: save_dialog_def)

lemma GetDialogs_ready: "GetDialogs c = Inr dialogs \<Longrightarrow> \<exists>r. api c = Some r"
  by (auto simp: GetDialogs_def split: if_splits option.splits sum.splits)

lemma snapshot_initial_full_sync:
  assumes alive: "\<not> crashed w" and listing: "GetDialogs c = Inr dialogs"
      and snapshot: "GetState c = Inr snap"
  shows "updates_state_table (store (initial_full_sync c userID w)) userID = Some snap"
proof -
  from GetDialogs_ready [OF listing] obtain r where r: "api c = Some r" by blast
  let ?w0 = "emit [CalledGetDialogs] w"
  let ?w1 = "foldl (save_dialog userID) ?w0 dialogs"
  let ?w2 = "foldl (sync_dialog_messages c userID) ?w1 dialogs"
  have "\<not> crashed ?w2"
    using alive by (simp add: crashed_foldl_sync_dialog_messages [OF r] crashed_foldl_save_dialog)
  then show ?thesis using listing snapshot by (simp add: initial_full_sync_def Let_def)
qed

lemma trace_foldl_save_message:
  "trace (foldl (\<lambda>w' msg. save_message (f msg) w') w ms) =
     trace w @ map (\<lambda>m. CalledSaveMessage (f m)) ms"
  by (induction ms arbitrary: w) simp_all

lemma trace_foldl_save_dialog:
  "trace (foldl (save_dialog userID) w dialogs) =
     trace w @ map (\<lambda>d. CalledSaveConversation (d\<lparr>conv_UserID := userID\<rparr>)) dialogs"
  by (induction dialogs arbitrary: w) (simp_all add: save_dialog_def)

lemma trace_sync_dialog_messages:
  assumes ready: "api c = Some r" and alive: "\<not> crashed w"
  shows "trace (sync_dialog_messages c userID w dialog) =
           trace w @ fetch_events userID
             (GetMessagesWithConvInfo c (conv_ID dialog) 50 (conv_Type dialog) (conv_AccessHash dialog))"
  using fetch_never_panics [OF ready, of "conv_ID dialog" 50 "conv_Type dialog" "conv_AccessHash dialog"]
        alive
  by (auto simp: sync_dialog_messages_def fetch_events_def trace_foldl_save_message
      split: prod.splits sum.splits)

lemma trace_foldl_sync_dialog_messages:
  assumes ready: "api c = Some r"
  shows "\<not> crashed w \<Longrightarrow>
         trace (foldl (sync_dialog_messages c userID) w dialogs) =
           trace w @ concat (map (\<lambda>d. fetch_events userID
             (GetMessagesWithConvInfo c (conv_ID d) 50 (conv_Type d) (conv_AccessHash d))) dialogs)"
proof (induction dialogs arbitrary: w)
  case Nil
  show ?case by simp
next
  case (Cons d dialogs)
  have "\<not> crashed (sync_dialog_messages c userID w d)"
    using Cons.prems by (simp add: crashed_sync_dialog_messages [OF ready])
  from Cons.IH [OF this] show ?case
    using Cons.prems by (simp add: trace_sync_dialog_messages [OF ready])
qed

lemma trace_bootstrap:
  assumes alive: "\<not> crashed w" and listing: "GetDialogs c = Inr dialogs"
  shows "trace (initial_full_sync c userID w) =
           trace w @ [CalledGetDialogs]
           @ map (\<lambda>d. CalledSaveConversation (d\<lparr>conv_UserID := userID\<rparr>)) dialogs
           @ concat (map (\<lambda>d. fetch_events userID
               (GetMessagesWithConvInfo c (conv_ID d) 50 (conv_Type d) (conv_AccessHash d))) dialogs)
           @ [CalledGetState]
           @ (case GetState c of Inl e \<Rightarrow> [] | Inr snap \<Rightarrow> [CalledSaveUpdatesState userID snap])
           @ [AutoSyncCompleted userID]"
proof -
  from GetDialogs_ready [OF listing] obtain r where r: "api c = Some r" by blast
  let ?w1 = "foldl (save_dialog userID) (emit [CalledGetDialogs] w) dialogs"
  let ?w2 = "foldl (sync_dialog_messages c userID) ?w1 dialogs"
  have a1: "\<not> crashed ?w1" using alive by (simp add: crashed_foldl_save_dialog)
  have a2: "\<not> crashed ?w2" using a1 by (simp add: crashed_foldl_sync_dialog_messages [OF r])
  have t: "trace ?w2 = trace w @ [CalledGetDialogs]
           @ map (\<lambda>d. CalledSaveConversation (d\<lparr>conv_UserID := userID\<rparr>)) dialogs
           @ concat (map (\<lambda>d. fetch_events userID
               (GetMessagesWithConvInfo c (conv_ID d) 50 (conv_Type d) (conv_AccessHash d))) dialogs)"
    by (simp add: trace_foldl_sync_dialog_messages [OF r a1] trace_foldl_save_dialog)
  show ?thesis
    using listing a2 t by (simp add: initial_full_sync_def Let_def split: sum.splits)
qed

lemma requests_keep_limit:
  "\<forall>r \<in> set (fst (GetMessagesWithConvInfo c peerID limit convType accessHash)). snd r = limit"
  by (auto simp: GetMessagesWithConvInfo_def getMessagesWithFallback_def Let_def
      split: peer_choice.splits option.splits sum.splits)

text \<open>
  C7, as the code has it. A pass that starts on a running process opens exactly one
  mode. It is the initial full sync (the dialog listing, then the recent history of
  every conversation, then the state snapshot) when the read of the stored cursor fails
  or \<open>pts\<close>, \<open>qts\<close> and \<open>date\<close> of the stored cursor are all zero, whatever \<open>seq\<close> is;
  otherwise it is the incremental sync, whose difference request carries the stored
  \<open>pts\<close>, \<open>date\<close> and \<open>qts\<close>. A read that does not fail returns the stored row. In the
  initial full sync, when the dialog listing and the state request succeed, the
  snapshot is the user's stored cursor afterwards. And when the dialog listing
  succeeds, the whole pass is: the first log line, the dialog listing, a save of every
  listed conversation under the user's id, then for every listed conversation in order
  the history fetch with limit 50 and a save of every message it returns, then the state
  request, the save of the snapshot if that request succeeds, and the last log line;
  every history request of these fetches asks for 50 messages.
\<close>

theorem sync_mode_selection:
  assumes alive: "\<not> crashed w"
      and read: "GetUpdatesState (store w) userID = (st, err)"
  shows "filter mode_event (trace (autoSyncUser c userID w)) =
           filter mode_event (trace w)
           @ [if err \<noteq> None \<or> (Pts st = 0 \<and> Qts st = 0 \<and> Date st = 0) then CalledGetDialogs
              else CalledGetUpdates (Pts st) (Date st) (Qts st)]
       \<and> (updates_state_failure (store w) userID = None \<longrightarrow>
            err = None \<and> (\<forall>row. updates_state_table (store w) userID = Some row \<longrightarrow> st = row))
       \<and> (err \<noteq> None \<or> (Pts st = 0 \<and> Qts st = 0 \<and> Date st = 0) \<longrightarrow>
            (\<forall>dialogs snap. GetDialogs c = Inr dialogs \<and> GetState c = Inr snap \<longrightarrow>
               updates_state_table (store (autoSyncUser c userID w)) userID = Some snap))
       \<and> (err \<noteq> None \<or> (Pts st = 0 \<and> Qts st = 0 \<and> Date st = 0) \<longrightarrow>
            (\<forall>dialogs. GetDialogs c = Inr dialogs \<longrightarrow>
               trace (autoSyncUser c userID w) =
                 trace w @ [StartingAutoSync userID, CalledGetDialogs]
                 @ map (\<lambda>d. CalledSaveConversation (d\<lparr>conv_UserID := userID\<rparr>)) dialogs
                 @ concat (map (\<lambda>d. fetch_events userID
                     (GetMessagesWithConvInfo c (conv_ID d) 50 (conv_Type d) (conv_AccessHash d)))
                     dialogs)
                 @ [CalledGetState]
                 @ (case GetState c of
                      Inl e \<Rightarrow> []
                    | Inr snap \<Rightarrow> [CalledSaveUpdatesState userID snap])
                 @ [AutoSyncCompleted userID]
               \<and> (\<forall>d \<in> set dialogs.
                    \<forall>r \<in> set (fst (GetMessagesWithConvInfo c (conv_ID d) 50 (conv_Type d)
                                      (conv_AccessHash d))). snd r = 50)))"
proof (intro conjI impI allI ballI)
  show "filter mode_event (trace (autoSyncUser c userID w)) =
           filter mode_event (trace w)
           @ [if err \<noteq> None \<or> (Pts st = 0 \<and> Qts st = 0 \<and> Date st = 0) then CalledGetDialogs
              else CalledGetUpdates (Pts st) (Date st) (Qts st)]"
    using alive read
    by (cases err)
       (auto simp: autoSyncUser_def Let_def no_stored_state_def zero_state_def
          mode_initial_full_sync mode_incremental_sync)
next
  assume "updates_state_failure (store w) userID = None"
  then show "err = None" using read by (auto simp: GetUpdatesState_def scan_updates_state_def split: option.splits)
next
  fix row
  assume "updates_state_failure (store w) userID = None"
    and "updates_state_table (store w) userID = Some row"
  then show "st = row" using read by (simp add: GetUpdatesState_def scan_updates_state_def)
next
  fix dialogs snap
  assume mode: "err \<noteq> None \<or> (Pts st = 0 \<and> Qts st = 0 \<and> Date st = 0)"
    and ok: "GetDialogs c = Inr dialogs \<and> GetState c = Inr snap"
  have eq: "autoSyncUser c userID w = initial_full_sync c userID (emit [StartingAutoSync userID] w)"
    using alive read mode
    by (cases err) (auto simp: autoSyncUser_def Let_def no_stored_state_def zero_state_def)
  show "updates_state_table (store (autoSyncUser c userID w)) userID = Some snap"
    unfolding eq using ok alive by (intro snapshot_initial_full_sync [of _ c dialogs]) simp_all
next
  fix dialogs
  assume mode: "err \<noteq> None \<or> (Pts st = 0 \<and> Qts st = 0 \<and> Date st = 0)"
    and listing: "GetDialogs c = Inr dialogs"
  have eq: "autoSyncUser c userID w = initial_full_sync c userID (emit [StartingAutoSync userID] w)"
    using alive read mode
    by (cases err) (auto simp: autoSyncUser_def Let_def no_stored_state_def zero_state_def)
  have alive': "\<not> crashed (emit [StartingAutoSync userID] w)" using alive by simp
  show "trace (autoSyncUser c userID w) =
          trace w @ [StartingAutoSync userID, CalledGetDialogs]
          @ map (\<lambda>d. CalledSaveConversation (d\<lparr>conv_UserID := userID\<rparr>)) dialogs
          @ concat (map (\<lambda>d. fetch_events userID
              (GetMessagesWithConvInfo c (conv_ID d) 50 (conv_Type d) (conv_AccessHash d)))
              dialogs)
          @ [CalledGetState]
          @ (case GetState c of
               Inl e \<Rightarrow> []
             | Inr snap \<Rightarrow> [CalledSaveUpdatesState userID snap])
          @ [AutoSyncCompleted userID]"
    unfolding eq by (simp add: trace_bootstrap [OF alive' listing])
next
  fix dialogs d r
  assume "r \<in> set (fst (GetMessagesWithConvInfo c (conv_ID d) 50 (conv_Type d) (conv_AccessHash d)))"
  then show "snd r = 50"
    using requests_keep_limit [of c "conv_ID d" 50 "conv_Type d" "conv_AccessHash d"] by blast
qed

theorem sync_mode_selection_witness:
  "\<not> crashed (fresh_world (with_cursor 1 \<lparr>Pts = 100, Qts = 7, Date = 1000, Seq = 3\<rparr> empty_database))
   \<and> GetUpdatesState
        (store (fresh_world (with_cursor 1 \<lparr>Pts = 100, Qts = 7, Date = 1000, Seq = 3\<rparr> empty_database))) 1
        = (\<lparr>Pts = 100, Qts = 7, Date = 1000, Seq = 3\<rparr>, None)
   \<and> filter mode_event (trace (autoSyncUser (connected (quiet_remote 1060)) 1
        (fresh_world (with_cursor 1 \<lparr>Pts = 100, Qts = 7, Date = 1000, Seq = 3\<rparr> empty_database))))
        = [CalledGetUpdates 100 1000 7]
   \<and> GetUpdatesState (store (fresh_world (with_cursor 1 zero_state empty_database))) 1
        = (zero_state, None)
   \<and> GetDialogs (connected (bootstrap_remote [102, 101] \<lparr>Pts = 5, Qts = 0, Date = 1700, Seq = 2\<rparr>))
        = Inr [example_channel]
   \<and> GetState (connected (bootstrap_remote [102, 101] \<lparr>Pts = 5, Qts = 0, Date = 1700, Seq = 2\<rparr>))
        = Inr \<lparr>Pts = 5, Qts = 0, Date = 1700, Seq = 2\<rparr>
   \<and> filter mode_event
        (trace (autoSyncUser (connected (bootstrap_remote [102, 101] \<lparr>Pts = 5, Qts = 0, Date = 1700, Seq = 2\<rparr>)) 1
           (fresh_world (with_cursor 1 zero_state empty_database))))
        = [CalledGetDialogs]
   \<and> updates_state_table
        (store (autoSyncUser (connected (bootstrap_remote [102, 101] \<lparr>Pts = 5, Qts = 0, Date = 1700, Seq = 2\<rparr>)) 1
           (fresh_world (with_cursor 1 zero_state empty_database)))) 1
        = Some \<lparr>Pts = 5, Qts = 0, Date = 1700, Seq = 2\<rparr>
   \<and> without_saved_messages
        (trace (autoSyncUser (connected (bootstrap_remote [102, 101] \<lparr>Pts = 5, Qts = 0, Date = 1700, Seq = 2\<rparr>)) 1
           (fresh_world (with_cursor 1 zero_state empty_database))))
        = [StartingAutoSync 1, CalledGetDialogs, CalledSaveConversation example_channel,
           SentGetHistory (InputPeerChannel 9 77) 50, CalledGetState,
           CalledSaveUpdatesState 1 \<lparr>Pts = 5, Qts = 0, Date = 1700, Seq = 2\<rparr>, AutoSyncCompleted 1]
   \<and> saved_message_ids
        (trace (autoSyncUser (connected (bootstrap_remote [102, 101] \<lparr>Pts = 5, Qts = 0, Date = 1700, Seq = 2\<rparr>)) 1
           (fresh_world (with_cursor 1 zero_state empty_database))))
        = [102, 101]"
proof -
  let ?snap = "\<lparr>Pts = 5, Qts = 0, Date = 1700, Seq = 2\<rparr>"
  let ?c = "connected (bootstrap_remote [102, 101] ?snap)"
  let ?w = "fresh_world (with_cursor 1 zero_state empty_database)"
  have listing: "GetDialogs ?c = Inr [example_channel]"
    by (simp add: GetDialogs_def connected_def bootstrap_remote_def)
  have snapshot: "GetState ?c = Inr ?snap"
    by (simp add: GetState_def connected_def bootstrap_remote_def)
  have fetch: "GetMessagesWithConvInfo ?c 9 50 ''channel'' ''77''
     = ([(InputPeerChannel 9 77, 50)], Inr (parse_entries (map text_message [102, 101]) [] 9))"
    by (simp add: GetMessagesWithConvInfo_def choose_peer_def ParseInt_def is_digit_def
        digits_val_def digit_val_def connected_def bootstrap_remote_def channel_remote_def
        unreachable_remote_def)
  have same: "example_channel\<lparr>conv_UserID := 1\<rparr> = example_channel"
    by (simp add: example_channel_def)
  have ids: "conv_ID example_channel = 9" "conv_Type example_channel = ''channel''"
    "conv_AccessHash example_channel = ''77''"
    by (simp_all add: example_channel_def)
  have read: "GetUpdatesState (store ?w) 1 = (zero_state, None)"
    by (simp add: fresh_world_def with_cursor_def GetUpdatesState_def scan_updates_state_def
        empty_database_def)
  have alive: "\<not> crashed ?w" by (simp add: fresh_world_def)
  have start: "trace ?w = []" by (simp add: fresh_world_def)
  have boot: "trace (autoSyncUser ?c 1 ?w) =
      [StartingAutoSync 1, CalledGetDialogs, CalledSaveConversation example_channel,
       SentGetHistory (InputPeerChannel 9 77) 50]
      @ map (\<lambda>m. CalledSaveMessage (m\<lparr>msg_UserID := 1\<rparr>))
          (parse_entries (map text_message [102, 101]) [] 9)
      @ [CalledGetState, CalledSaveUpdatesState 1 ?snap, AutoSyncCompleted 1]
    \<and> filter mode_event (trace (autoSyncUser ?c 1 ?w)) = [CalledGetDialogs]
    \<and> updates_state_table (store (autoSyncUser ?c 1 ?w)) 1 = Some ?snap"
    using sync_mode_selection [of ?w 1 zero_state None ?c] alive read listing snapshot start
    by (simp add: zero_state_def same ids fetch fetch_events_def)
  have first: "\<not> crashed (fresh_world (with_cursor 1 \<lparr>Pts = 100, Qts = 7, Date = 1000, Seq = 3\<rparr> empty_database))
   \<and> GetUpdatesState
        (store (fresh_world (with_cursor 1 \<lparr>Pts = 100, Qts = 7, Date = 1000, Seq = 3\<rparr> empty_database))) 1
        = (\<lparr>Pts = 100, Qts = 7, Date = 1000, Seq = 3\<rparr>, None)
   \<and> filter mode_event (trace (autoSyncUser (connected (quiet_remote 1060)) 1
        (fresh_world (with_cursor 1 \<lparr>Pts = 100, Qts = 7, Date = 1000, Seq = 3\<rparr> empty_database))))
        = [CalledGetUpdates 100 1000 7]"
    using sync_mode_selection
          [of "fresh_world (with_cursor 1 \<lparr>Pts = 100, Qts = 7, Date = 1000, Seq = 3\<rparr> empty_database)"
              1 "\<lparr>Pts = 100, Qts = 7, Date = 1000, Seq = 3\<rparr>" None
              "connected (quiet_remote 1060)"]
    by (simp add: fresh_world_def with_cursor_def empty_database_def
        GetUpdatesState_def scan_updates_state_def)
  show ?thesis
    using first boot read listing snapshot
    by (simp add: text_message_def parseMessageWithUsers_def Let_def)
qed

text \<open>
  C7 as stated fails in one direction: the cursor with \<open>pts\<close>, \<open>qts\<close> and \<open>date\<close> zero
  and \<open>seq\<close> one is not the all-zero value, and the pass on it is the initial full sync.
\<close>

theorem seq_only_cursor_counterexample:
  "updates_state_table (store (fresh_world (with_cursor 1 \<lparr>Pts = 0, Qts = 0, Date = 0, Seq = 1\<rparr> empty_database))) 1
     = Some \<lparr>Pts = 0, Qts = 0, Date = 0, Seq = 1\<rparr>
   \<and> \<lparr>Pts = 0, Qts = 0, Date = 0, Seq = 1\<rparr> \<noteq> zero_state
   \<and> trace (autoSyncUser (connected unreachable_remote) 1
        (fresh_world (with_cursor 1 \<lparr>Pts = 0, Qts = 0, Date = 0, Seq = 1\<rparr> empty_database)))
        = [StartingAutoSync 1, CalledGetDialogs, CalledGetState, AutoSyncCompleted 1]"
  by (simp add: fresh_world_def with_cursor_def empty_database_def zero_state_def
      autoSyncUser_def GetUpdatesState_def scan_updates_state_def no_stored_state_def initial_full_sync_def
      GetDialogs_def GetState_def connected_def unreachable_remote_def Let_def)

subsection \<open>Reading the cursor of a user who never synced\<close>

text \<open>
  C10. When the user has no row in the cursor table and the read does not fail,
  \<open>GetUpdatesState\<close> returns the all-zero cursor and no error; it returns the same for a
  user whose row was set to the all-zero cursor; and the pass of either user opens the
  initial full sync.
\<close>

theorem never_synced_user_bootstraps:
  assumes alive: "\<not> crashed w"
      and readable: "updates_state_failure (store w) userID = None"
      and no_row: "updates_state_table (store w) userID = None"
  shows "GetUpdatesState (store w) userID = (zero_state, None)
       \<and> GetUpdatesState (SaveUpdatesState userID zero_state (store w)) userID = (zero_state, None)
       \<and> filter mode_event (trace (autoSyncUser c userID w)) =
           filter mode_event (trace w) @ [CalledGetDialogs]
       \<and> filter mode_event
           (trace (autoSyncUser c userID (w\<lparr>store := SaveUpdatesState userID zero_state (store w)\<rparr>))) =
           filter mode_event (trace w) @ [CalledGetDialogs]"
  using alive readable no_row
  by (simp add: autoSyncUser_def Let_def GetUpdatesState_def scan_updates_state_def no_stored_state_def zero_state_def
      mode_initial_full_sync)

theorem never_synced_user_bootstraps_witness:
  "\<not> crashed (fresh_world empty_database)
   \<and> updates_state_failure (store (fresh_world empty_database)) 1 = None
   \<and> updates_state_table (store (fresh_world empty_database)) 1 = None
   \<and> GetUpdatesState (store (fresh_world empty_database)) 1 = (zero_state, None)
   \<and> filter mode_event (trace (autoSyncUser (connected unreachable_remote) 1 (fresh_world empty_database)))
       = [CalledGetDialogs]"
  using never_synced_user_bootstraps [of "fresh_world empty_database" 1 "connected unreachable_remote"]
  by (simp add: fresh_world_def empty_database_def)

subsection \<open>The cursor in an incremental pass\<close>

lemma cursor_apply_updates:
  "filter cursor_write (trace (apply_updates c userID stored w)) =
     filter cursor_write (trace w)
     @ (case GetUpdates c (Pts stored) (Date stored) (Qts stored) of
          Inl err \<Rightarrow> []
        | Inr u \<Rightarrow> if Pts (State u) > 0 \<or> Date (State u) > 0
                   then [CalledSaveUpdatesState userID (State u)] else [])
   \<and> updates_state_table (store (apply_updates c userID stored w)) =
     (case GetUpdates c (Pts stored) (Date stored) (Qts stored) of
          Inl err \<Rightarrow> updates_state_table (store w)
        | Inr u \<Rightarrow> if Pts (State u) > 0 \<or> Date (State u) > 0
                   then (updates_state_table (store w))(userID := Some (State u))
                   else updates_state_table (store w))"
proof (cases "GetUpdates c (Pts stored) (Date stored) (Qts stored)")
  case (Inl err)
  then show ?thesis by (simp add: apply_updates_def Let_def)
next
  case (Inr u)
  let ?w0 = "emit [CalledGetUpdates (Pts stored) (Date stored) (Qts stored)] w"
  let ?w1 = "foldl (\<lambda>w' msg. save_message msg w') ?w0 (ParseUpdatesMessages u userID)"
  have q: "quiet_step ?w0 ?w1" by (rule quiet_step_foldl) (rule quiet_step_save_message)
  have f: "filter cursor_write (trace ?w1) = filter cursor_write (trace w)"
    using quiet_step_filter [OF q, of cursor_write] quiet_not_cursor by simp
  have t: "updates_state_table (store ?w1) = updates_state_table (store w)"
    using quiet_step_table [OF q] by simp
  show ?thesis using Inr f t by (simp add: apply_updates_def Let_def)
qed

lemma cursor_incremental_sync:
  "filter cursor_write (trace (incremental_sync c userID stored w)) =
     filter cursor_write (trace (apply_updates c userID stored w))
   \<and> updates_state_table (store (incremental_sync c userID stored w)) =
     updates_state_table (store (apply_updates c userID stored w))"
  by (simp add: incremental_sync_def)

lemma cursor_channel_sync:
  "filter cursor_write (trace (channel_sync c userID w)) = filter cursor_write (trace w)
   \<and> updates_state_table (store (channel_sync c userID w)) = updates_state_table (store w)"
  using quiet_step_filter [OF quiet_step_channel_sync, of cursor_write] quiet_not_cursor
        quiet_step_table [OF quiet_step_channel_sync]
  by blast

text \<open>
  C2. In an incremental pass whose difference request succeeds, the cursor of the
  response is written exactly when its \<open>pts\<close> or its \<open>date\<close> is positive, and nothing
  else writes a cursor. So the stored cursors change only if \<open>pts\<close> or \<open>date\<close> of the
  response is not zero, and a response that carries the all-zero cursor leaves them as
  they were.
\<close>

theorem empty_state_guard:
  assumes alive: "\<not> crashed w"
      and readable: "updates_state_failure (store w) userID = None"
      and stored: "updates_state_table (store w) userID = Some st"
      and incremental: "\<not> (Pts st = 0 \<and> Qts st = 0 \<and> Date st = 0)"
      and response: "GetUpdates c (Pts st) (Date st) (Qts st) = Inr u"
  shows "filter cursor_write (trace (autoSyncUser c userID w)) =
           filter cursor_write (trace w)
           @ (if Pts (State u) > 0 \<or> Date (State u) > 0
              then [CalledSaveUpdatesState userID (State u)] else [])
       \<and> (updates_state_table (store (autoSyncUser c userID w)) \<noteq> updates_state_table (store w)
            \<longrightarrow> Pts (State u) \<noteq> 0 \<or> Date (State u) \<noteq> 0)
       \<and> (State u = zero_state \<longrightarrow>
            updates_state_table (store (autoSyncUser c userID w)) = updates_state_table (store w)
            \<and> filter cursor_write (trace (autoSyncUser c userID w)) = filter cursor_write (trace w))"
proof -
  have eq: "autoSyncUser c userID w = incremental_sync c userID st (emit [StartingAutoSync userID] w)"
    using alive readable stored incremental
    by (auto simp: autoSyncUser_def Let_def GetUpdatesState_def scan_updates_state_def no_stored_state_def)
  show ?thesis
    unfolding eq
    using response
    by (auto simp: cursor_incremental_sync cursor_apply_updates zero_state_def)
qed

theorem empty_state_guard_witness:
  "\<not> crashed (fresh_world (with_cursor 1 \<lparr>Pts = 100, Qts = 7, Date = 1000, Seq = 3\<rparr> empty_database))
   \<and> updates_state_table (store (fresh_world (with_cursor 1 \<lparr>Pts = 100, Qts = 7, Date = 1000, Seq = 3\<rparr> empty_database))) 1
        = Some \<lparr>Pts = 100, Qts = 7, Date = 1000, Seq = 3\<rparr>
   \<and> GetUpdates (connected (quiet_remote 0)) 100 1000 7
        = Inr \<lparr>NewMessages = [], Users = [], State = zero_state\<rparr>
   \<and> updates_state_table (store (autoSyncUser (connected (quiet_remote 0)) 1
        (fresh_world (with_cursor 1 \<lparr>Pts = 100, Qts = 7, Date = 1000, Seq = 3\<rparr> empty_database))))
      = updates_state_table (store (fresh_world (with_cursor 1 \<lparr>Pts = 100, Qts = 7, Date = 1000, Seq = 3\<rparr> empty_database)))
   \<and> filter cursor_write (trace (autoSyncUser (connected (quiet_remote 0)) 1
        (fresh_world (with_cursor 1 \<lparr>Pts = 100, Qts = 7, Date = 1000, Seq = 3\<rparr> empty_database)))) = []"
  using empty_state_guard
          [of "fresh_world (with_cursor 1 \<lparr>Pts = 100, Qts = 7, Date = 1000, Seq = 3\<rparr> empty_database)"
              1 "\<lparr>Pts = 100, Qts = 7, Date = 1000, Seq = 3\<rparr>" "connected (quiet_remote 0)"
              "\<lparr>NewMessages = [], Users = [], State = zero_state\<rparr>"]
  by (simp add: fresh_world_def with_cursor_def empty_database_def zero_state_def
      GetUpdates_def connected_def quiet_remote_def unreachable_remote_def)

text \<open>
  C1 does not hold of the code. The stored cursor is \<open>pts\<close> 100, \<open>qts\<close> 7, \<open>date\<close> 1000,
  \<open>seq\<close> 3, and the remote platform answers the difference request with an empty
  difference dated 1060, its usual answer when nothing is new. \<open>GetUpdates\<close> turns the
  answer into a state with the date and zero for \<open>pts\<close>, \<open>qts\<close> and \<open>seq\<close>; the date
  lets the state pass the test of line 115, and the pass stores it: \<open>pts\<close> falls from
  100 to 0.
\<close>

theorem cursor_regresses_on_empty_difference:
  "updates_state_table (store (fresh_world (with_cursor 1 \<lparr>Pts = 100, Qts = 7, Date = 1000, Seq = 3\<rparr> empty_database))) 1
     = Some \<lparr>Pts = 100, Qts = 7, Date = 1000, Seq = 3\<rparr>
   \<and> UpdatesGetDifference (quiet_remote 1060) 100 1000 7 = Inr (UpdatesDifferenceEmpty 1060 3)
   \<and> updates_state_table (store (autoSyncUser (connected (quiet_remote 1060)) 1
        (fresh_world (with_cursor 1 \<lparr>Pts = 100, Qts = 7, Date = 1000, Seq = 3\<rparr> empty_database)))) 1
     = Some \<lparr>Pts = 0, Qts = 0, Date = 1060, Seq = 0\<rparr>"
  by (simp add: fresh_world_def with_cursor_def empty_database_def
      autoSyncUser_def GetUpdatesState_def scan_updates_state_def no_stored_state_def incremental_sync_def
      apply_updates_def GetUpdates_def ParseUpdatesMessages_def connected_def quiet_remote_def
      unreachable_remote_def SaveUpdatesState_def Let_def)

subsection \<open>The channel sync of one conversation\<close>

lemma trace_foldl_save_if_newer:
  "trace (foldl (save_if_newer userID offsetID) w ms) =
     trace w @ map (\<lambda>m. CalledSaveMessage (m\<lparr>msg_UserID := userID\<rparr>))
                 (filter (\<lambda>m. offsetID = 0 \<or> msg_MessageID m > offsetID) ms)"
  by (induction ms arbitrary: w) (simp_all add: save_if_newer_def)

lemma sorted_le_last: "sorted xs \<Longrightarrow> x \<in> set xs \<Longrightarrow> x \<le> last xs"
  by (induction xs) auto

lemma newest_first_head:
  assumes "rows \<noteq> []"
  shows "\<exists>y ys. newest_first column tie rows = y # ys \<and> y \<in> set rows
           \<and> (\<forall>x\<in>set rows. column x < column y \<or> (column x = column y \<and> tie x \<le> tie y))"
proof -
  let ?f = "\<lambda>x. (column x, tie x)"
  let ?s = "sort_key ?f rows"
  have set_s: "set ?s = set rows" by simp
  have ne: "?s \<noteq> []" using assms set_s by (metis set_empty)
  have srt: "sorted (map ?f ?s)" by (rule sorted_sort_key)
  have top: "?f x \<le> ?f (last ?s)" if "x \<in> set rows" for x
  proof -
    have "?f x \<in> set (map ?f ?s)" using that set_s by auto
    from sorted_le_last [OF srt this] show ?thesis using ne by (simp add: last_map)
  qed
  have r: "rev ?s = last ?s # rev (butlast ?s)"
    using ne by (metis append_butlast_last_id rev.simps(2) rev_append rev_rev_ident append_Cons append_Nil)
  have m: "last ?s \<in> set rows" using ne set_s last_in_set by blast
  have t: "\<forall>x\<in>set rows. column x < column (last ?s)
                   \<or> (column x = column (last ?s) \<and> tie x \<le> tie (last ?s))"
    using top by (auto simp: less_eq_prod_def order_le_less)
  show ?thesis unfolding newest_first_def using r m t by blast
qed

lemma latest_message_id_unreadable:
  "read_failure d (QueryMessagesByUserAndConversation userID conversationID) \<noteq> None
   \<Longrightarrow> latest_message_id d userID conversationID = 0"
  by (auto simp: latest_message_id_def GetMessagesByUserAndConversation_def)

lemma latest_message_id_cases:
  assumes readable: "read_failure d (QueryMessagesByUserAndConversation userID conversationID) = None"
  shows "(filter (\<lambda>x. msg_UserID x = userID \<and> msg_ConversationID x = conversationID) (messages_table d) = []
           \<and> latest_message_id d userID conversationID = 0)
       \<or> (\<exists>row \<in> set (filter (\<lambda>x. msg_UserID x = userID \<and> msg_ConversationID x = conversationID)
                        (messages_table d)).
             latest_message_id d userID conversationID = msg_MessageID row
             \<and> (\<forall>r \<in> set (filter (\<lambda>x. msg_UserID x = userID \<and> msg_ConversationID x = conversationID)
                        (messages_table d)).
                   timestamp_column d r < timestamp_column d row
                   \<or> (timestamp_column d r = timestamp_column d row
                      \<and> message_tie d r \<le> message_tie d row)))"
proof -
  let ?rows = "filter (\<lambda>x. msg_UserID x = userID \<and> msg_ConversationID x = conversationID) (messages_table d)"
  show ?thesis
  proof (cases "?rows = []")
    case True
    then show ?thesis using readable
      by (simp add: latest_message_id_def GetMessagesByUserAndConversation_def newest_first_def)
  next
    case False
    from newest_first_head [OF False, of "timestamp_column d" "message_tie d"]
    obtain y ys where s: "newest_first (timestamp_column d) (message_tie d) ?rows = y # ys"
      and y: "y \<in> set ?rows"
      and top: "\<forall>x\<in>set ?rows. timestamp_column d x < timestamp_column d y
                  \<or> (timestamp_column d x = timestamp_column d y \<and> message_tie d x \<le> message_tie d y)"
      by blast
    have "latest_message_id d userID conversationID = msg_MessageID y"
      using readable s by (simp add: latest_message_id_def GetMessagesByUserAndConversation_def)
    then show ?thesis using y top by blast
  qed
qed

text \<open>
  C3, as the code has it. For a conversation of type \<open>channel\<close> or \<open>group\<close> with an
  access hash, on a running process, when the fetch succeeds: the channel sync sends the
  history requests of the fetch, each with limit 50, and then hands to \<open>SaveMessage\<close>,
  in the order fetched, exactly the fetched messages for which the watermark is 0 or
  whose remote id is above the watermark. The watermark is 0 when the read of the stored
  messages fails. When the read does not fail, the watermark is 0 if no message of the
  user and the conversation is stored, and otherwise the remote id of the stored message
  of the user and the conversation that \<open>ORDER BY timestamp DESC\<close> puts first: no other
  has a greater text in the timestamp column, and none of those with the same text is
  ranked higher by the engine. With the watermark 100 and the remote ids 98 to 102, the
  messages 101 and 102 are saved and no other; when the read fails, all five are saved.
\<close>

theorem channel_watermark_resync:
  assumes alive: "\<not> crashed w"
      and qualifies: "(conv_Type conv = ''channel'' \<or> conv_Type conv = ''group'') \<and> conv_AccessHash conv \<noteq> ''''"
      and fetched: "GetMessagesWithConvInfo c (conv_ID conv) 50 (conv_Type conv) (conv_AccessHash conv)
                      = (requests, Inr channelMessages)"
  shows "trace (channel_sync_conv c userID w conv) =
           trace w @ map (\<lambda>(p, limit). SentGetHistory p limit) requests
           @ map (\<lambda>m. CalledSaveMessage (m\<lparr>msg_UserID := userID\<rparr>))
               (filter (\<lambda>m. latest_message_id (store w) userID (conv_ID conv) = 0
                             \<or> msg_MessageID m > latest_message_id (store w) userID (conv_ID conv))
                  channelMessages)
       \<and> (\<forall>r \<in> set requests. snd r = 50)
       \<and> (read_failure (store w) (QueryMessagesByUserAndConversation userID (conv_ID conv)) \<noteq> None
            \<longrightarrow> latest_message_id (store w) userID (conv_ID conv) = 0)
       \<and> (read_failure (store w) (QueryMessagesByUserAndConversation userID (conv_ID conv)) = None
            \<longrightarrow>
            (filter (\<lambda>x. msg_UserID x = userID \<and> msg_ConversationID x = conv_ID conv)
               (messages_table (store w)) = []
             \<and> latest_message_id (store w) userID (conv_ID conv) = 0)
            \<or> (\<exists>row \<in> set (filter (\<lambda>x. msg_UserID x = userID \<and> msg_ConversationID x = conv_ID conv)
                             (messages_table (store w))).
                 latest_message_id (store w) userID (conv_ID conv) = msg_MessageID row
                 \<and> (\<forall>r \<in> set (filter (\<lambda>x. msg_UserID x = userID \<and> msg_ConversationID x = conv_ID conv)
                             (messages_table (store w))).
                       timestamp_column (store w) r < timestamp_column (store w) row
                       \<or> (timestamp_column (store w) r = timestamp_column (store w) row
                          \<and> message_tie (store w) r \<le> message_tie (store w) row))))"
proof (intro conjI impI)
  show "trace (channel_sync_conv c userID w conv) =
           trace w @ map (\<lambda>(p, limit). SentGetHistory p limit) requests
           @ map (\<lambda>m. CalledSaveMessage (m\<lparr>msg_UserID := userID\<rparr>))
               (filter (\<lambda>m. latest_message_id (store w) userID (conv_ID conv) = 0
                             \<or> msg_MessageID m > latest_message_id (store w) userID (conv_ID conv))
                  channelMessages)"
    using alive qualifies fetched
    by (simp add: channel_sync_conv_def Let_def trace_foldl_save_if_newer)
  show "\<forall>r \<in> set requests. snd r = 50"
    using requests_keep_limit [of c "conv_ID conv" 50 "conv_Type conv" "conv_AccessHash conv"] fetched
    by simp
next
  assume "read_failure (store w) (QueryMessagesByUserAndConversation userID (conv_ID conv)) \<noteq> None"
  then show "latest_message_id (store w) userID (conv_ID conv) = 0"
    by (rule latest_message_id_unreadable)
next
  assume readable: "read_failure (store w) (QueryMessagesByUserAndConversation userID (conv_ID conv)) = None"
  show "(filter (\<lambda>x. msg_UserID x = userID \<and> msg_ConversationID x = conv_ID conv)
               (messages_table (store w)) = []
             \<and> latest_message_id (store w) userID (conv_ID conv) = 0)
            \<or> (\<exists>row \<in> set (filter (\<lambda>x. msg_UserID x = userID \<and> msg_ConversationID x = conv_ID conv)
                             (messages_table (store w))).
                 latest_message_id (store w) userID (conv_ID conv) = msg_MessageID row
                 \<and> (\<forall>r \<in> set (filter (\<lambda>x. msg_UserID x = userID \<and> msg_ConversationID x = conv_ID conv)
                             (messages_table (store w))).
                       timestamp_column (store w) r < timestamp_column (store w) row
                       \<or> (timestamp_column (store w) r = timestamp_column (store w) row
                          \<and> message_tie (store w) r \<le> message_tie (store w) row)))"
    by (rule latest_message_id_cases [OF readable])
qed

lemma example_fetch:
  "GetMessagesWithConvInfo (connected (channel_remote ids)) 9 50 ''channel'' ''77''
     = ([(InputPeerChannel 9 77, 50)],
        Inr (parse_entries (map text_message ids) [] 9))"
  by (simp add: GetMessagesWithConvInfo_def choose_peer_def ParseInt_def is_digit_def
      digits_val_def digit_val_def connected_def channel_remote_def unreachable_remote_def)

theorem channel_watermark_resync_witness:
  "\<not> crashed (fresh_world (empty_database\<lparr>messages_table := [stored_row 1 9 100 1000, stored_row 1 9 90 500]\<rparr>))
   \<and> conv_Type example_channel = ''channel'' \<and> conv_AccessHash example_channel \<noteq> ''''
   \<and> GetMessagesWithConvInfo (connected (channel_remote [102, 101, 100, 99, 98])) (conv_ID example_channel) 50
         (conv_Type example_channel) (conv_AccessHash example_channel)
       = ([(InputPeerChannel 9 77, 50)], Inr (parse_entries (map text_message [102, 101, 100, 99, 98]) [] 9))
   \<and> latest_message_id
        (store (fresh_world (empty_database\<lparr>messages_table := [stored_row 1 9 100 1000, stored_row 1 9 90 500]\<rparr>)))
        1 9 = 100
   \<and> map msg_MessageID (parse_entries (map text_message [102, 101, 100, 99, 98]) [] 9) = [102, 101, 100, 99, 98]
   \<and> saved_message_ids (trace (channel_sync_conv (connected (channel_remote [102, 101, 100, 99, 98])) 1
        (fresh_world (empty_database\<lparr>messages_table := [stored_row 1 9 100 1000, stored_row 1 9 90 500]\<rparr>))
        example_channel))
      = [102, 101]
   \<and> read_failure
        (store (fresh_world (empty_database\<lparr>messages_table := [stored_row 1 9 100 1000],
                                              read_failure := (\<lambda>q. Some (DbError ''database is locked''))\<rparr>)))
        (QueryMessagesByUserAndConversation 1 9) \<noteq> None
   \<and> latest_message_id
        (store (fresh_world (empty_database\<lparr>messages_table := [stored_row 1 9 100 1000],
                                              read_failure := (\<lambda>q. Some (DbError ''database is locked''))\<rparr>)))
        1 9 = 0
   \<and> saved_message_ids (trace (channel_sync_conv (connected (channel_remote [102, 101, 100, 99, 98])) 1
        (fresh_world (empty_database\<lparr>messages_table := [stored_row 1 9 100 1000],
                                       read_failure := (\<lambda>q. Some (DbError ''database is locked''))\<rparr>))
        example_channel))
      = [102, 101, 100, 99, 98]"
proof -
  let ?c = "connected (channel_remote [102, 101, 100, 99, 98])"
  let ?ms = "parse_entries (map text_message [102, 101, 100, 99, 98]) [] 9"
  let ?w = "fresh_world (empty_database\<lparr>messages_table := [stored_row 1 9 100 1000, stored_row 1 9 90 500]\<rparr>)"
  let ?v = "fresh_world (empty_database\<lparr>messages_table := [stored_row 1 9 100 1000],
                                        read_failure := (\<lambda>q. Some (DbError ''database is locked''))\<rparr>)"
  have ids: "conv_ID example_channel = 9" "conv_Type example_channel = ''channel''"
    "conv_AccessHash example_channel = ''77''"
    by (simp_all add: example_channel_def)
  have fetch: "GetMessagesWithConvInfo ?c (conv_ID example_channel) 50
         (conv_Type example_channel) (conv_AccessHash example_channel)
       = ([(InputPeerChannel 9 77, 50)], Inr ?ms)"
    using example_fetch [of "[102, 101, 100, 99, 98]"] by (simp add: ids)
  have order: "first_day_utc 500 < first_day_utc 1000" "first_day_utc 500 \<le> first_day_utc 1000"
    "\<not> first_day_utc 1000 < first_day_utc 500" "\<not> first_day_utc 1000 \<le> first_day_utc 500"
    by (simp_all add: first_day_utc_def two_digits_def digit_char_def)
  have mark: "latest_message_id (store ?w) 1 9 = 100"
    using order
    by (simp add: fresh_world_def empty_database_def stored_row_def latest_message_id_def
        GetMessagesByUserAndConversation_def newest_first_def less_eq_prod_def less_prod_def)
  have unread: "read_failure (store ?v) (QueryMessagesByUserAndConversation 1 9) \<noteq> None"
    by (simp add: fresh_world_def empty_database_def)
  have alive: "\<not> crashed ?w" "\<not> crashed ?v" by (simp_all add: fresh_world_def)
  have start: "trace ?w = []" "trace ?v = []" by (simp_all add: fresh_world_def)
  have fetched_ids: "map msg_MessageID ?ms = [102, 101, 100, 99, 98]"
    by (simp add: text_message_def parseMessageWithUsers_def Let_def)
  have run: "saved_message_ids (trace (channel_sync_conv ?c 1 ?w example_channel)) = [102, 101]"
    using channel_watermark_resync [of ?w example_channel ?c "[(InputPeerChannel 9 77, 50)]" ?ms 1]
          alive fetch mark start
    by (simp add: ids text_message_def parseMessageWithUsers_def Let_def)
  have failed: "latest_message_id (store ?v) 1 9 = 0
      \<and> saved_message_ids (trace (channel_sync_conv ?c 1 ?v example_channel)) = [102, 101, 100, 99, 98]"
    using channel_watermark_resync [of ?v example_channel ?c "[(InputPeerChannel 9 77, 50)]" ?ms 1]
          alive fetch unread start
    by (simp add: ids text_message_def parseMessageWithUsers_def Let_def)
  show ?thesis
    using alive fetch mark fetched_ids run unread failed by (simp add: ids)
qed

text \<open>
  C3 as stated fails on the watermark. Two messages are stored by a process in UTC:
  remote id 7 at time 100 and remote id 5 at time 200. The maximum stored remote id is
  7, the watermark the channel sync reads is 5, the id of the message with the latest
  timestamp, and the fetched message 6 is saved although it is not above the maximum.
\<close>

theorem latest_is_not_maximum_counterexample:
  "spec_watermark (empty_database\<lparr>messages_table := [stored_row 1 9 7 100, stored_row 1 9 5 200]\<rparr>) 1 9 = 7
   \<and> timestamp_column (empty_database\<lparr>messages_table := [stored_row 1 9 7 100, stored_row 1 9 5 200]\<rparr>)
        (stored_row 1 9 7 100) = ''1970-01-01 00:01:40+00:00''
   \<and> timestamp_column (empty_database\<lparr>messages_table := [stored_row 1 9 7 100, stored_row 1 9 5 200]\<rparr>)
        (stored_row 1 9 5 200) = ''1970-01-01 00:03:20+00:00''
   \<and> latest_message_id (empty_database\<lparr>messages_table := [stored_row 1 9 7 100, stored_row 1 9 5 200]\<rparr>) 1 9 = 5
   \<and> saved_message_ids (trace (channel_sync_conv (connected (channel_remote [6])) 1
        (fresh_world (empty_database\<lparr>messages_table := [stored_row 1 9 7 100, stored_row 1 9 5 200]\<rparr>))
        example_channel))
      = [6]"
proof -
  let ?d = "empty_database\<lparr>messages_table := [stored_row 1 9 7 100, stored_row 1 9 5 200]\<rparr>"
  have texts: "first_day_utc 100 = ''1970-01-01 00:01:40+00:00''"
    "first_day_utc 200 = ''1970-01-01 00:03:20+00:00''"
    by (simp_all add: first_day_utc_def two_digits_def digit_char_def)
  have order: "first_day_utc 100 < first_day_utc 200" "first_day_utc 100 \<le> first_day_utc 200"
    "\<not> first_day_utc 200 < first_day_utc 100" "\<not> first_day_utc 200 \<le> first_day_utc 100"
    by (simp_all add: texts)
  have mark: "latest_message_id ?d 1 9 = 5"
    using order
    by (simp add: empty_database_def stored_row_def latest_message_id_def
        GetMessagesByUserAndConversation_def newest_first_def less_eq_prod_def less_prod_def)
  have spec: "spec_watermark ?d 1 9 = 7"
    by (simp add: spec_watermark_def empty_database_def stored_row_def)
  have run: "saved_message_ids (trace (channel_sync_conv (connected (channel_remote [6])) 1
        (fresh_world ?d) example_channel)) = [6]"
    using mark
    by (simp add: fresh_world_def example_channel_def channel_sync_conv_def example_fetch
        save_if_newer_def text_message_def parseMessageWithUsers_def Let_def)
  show ?thesis
    using spec mark run texts by (simp add: empty_database_def stored_row_def)
qed

subsection \<open>The periodic tick\<close>

lemma crashed_periodic_sync_user: "crashed w \<Longrightarrow> periodic_sync_user env w u = w"
  by (simp add: periodic_sync_user_def)

lemma crashed_stays: "crashed w \<Longrightarrow> foldl (periodic_sync_user env) w us = w"
  by (induction us) (simp_all add: crashed_periodic_sync_user)

lemma live_ready: "IsAuthenticated c = Inr True \<Longrightarrow> \<exists>r. api c = Some r"
  by (auto simp: IsAuthenticated_def split: if_splits option.splits)

lemma crashed_initial_full_sync:
  assumes ready: "api c = Some r"
  shows "crashed (initial_full_sync c userID w) = crashed w"
  by (simp add: initial_full_sync_def Let_def crashed_foldl_sync_dialog_messages [OF ready]
      crashed_foldl_save_dialog split: sum.splits)

lemma crashed_apply_updates: "crashed (apply_updates c userID stored w) = crashed w"
  using crashed_foldl_save_message [of "\<lambda>m. m"]
  by (simp add: apply_updates_def Let_def split: sum.splits)

lemma crashed_autoSyncUser:
  assumes ready: "api c = Some r"
  shows "crashed (autoSyncUser c userID w) = crashed w"
  by (simp add: autoSyncUser_def Let_def incremental_sync_def crashed_apply_updates
      crashed_initial_full_sync [OF ready])

lemma crashed_foldl_save_if_newer:
  "crashed (foldl (save_if_newer userID offsetID) w ms) = crashed w"
  by (induction ms arbitrary: w) (simp_all add: save_if_newer_def)

lemma crashed_channel_sync_conv:
  assumes ready: "api c = Some r"
  shows "crashed (channel_sync_conv c userID w conv) = crashed w"
  using fetch_never_panics [OF ready, of "conv_ID conv" 50 "conv_Type conv" "conv_AccessHash conv"]
  by (auto simp: channel_sync_conv_def Let_def crashed_foldl_save_if_newer
      split: prod.splits sum.splits)

lemma crashed_channel_sync:
  assumes ready: "api c = Some r"
  shows "crashed (channel_sync c userID w) = crashed w"
proof -
  have "crashed (foldl (channel_sync_conv c userID) v convs) = crashed v" for v convs
    by (induction convs arbitrary: v) (simp_all add: crashed_channel_sync_conv [OF ready])
  then show ?thesis by (simp add: channel_sync_def split: sum.splits)
qed

lemma trace_apply_updates: "\<exists>es. trace (apply_updates c userID stored w) = trace w @ es"
proof (cases "GetUpdates c (Pts stored) (Date stored) (Qts stored)")
  case (Inl err)
  then show ?thesis by (simp add: apply_updates_def Let_def)
next
  case (Inr updates)
  let ?w0 = "emit [CalledGetUpdates (Pts stored) (Date stored) (Qts stored)] w"
  let ?w1 = "foldl (\<lambda>w' msg. save_message msg w') ?w0 (ParseUpdatesMessages updates userID)"
  have "quiet_step ?w0 ?w1" by (rule quiet_step_foldl) (rule quiet_step_save_message)
  then obtain es where "trace ?w1 = trace ?w0 @ es" by (auto simp: quiet_step_def)
  then show ?thesis using Inr by (simp add: apply_updates_def Let_def)
qed

lemma pass_ends:
  assumes alive: "\<not> crashed w"
  shows "(\<exists>es. trace (autoSyncUser c userID w) =
                 trace w @ StartingAutoSync userID # es @ [AutoSyncCompleted userID])
       \<or> ((\<exists>err. GetDialogs c = Inl err)
          \<and> trace (autoSyncUser c userID w) = trace w @ [StartingAutoSync userID, CalledGetDialogs])"
proof -
  let ?w0 = "emit [StartingAutoSync userID] w"
  let ?stored = "case GetUpdatesState (store ?w0) userID of
                   (st, Some err) \<Rightarrow> zero_state | (st, None) \<Rightarrow> st"
  have alive0: "\<not> crashed ?w0" using alive by simp
  show ?thesis
  proof (cases "no_stored_state ?stored")
    case False
    from trace_apply_updates [of c userID ?stored ?w0]
    obtain es where "trace (apply_updates c userID ?stored ?w0) = trace ?w0 @ es" by blast
    then have "trace (autoSyncUser c userID w) =
        trace w @ StartingAutoSync userID # (es @ [StartedChannelSync userID]) @ [AutoSyncCompleted userID]"
      using alive False by (simp add: autoSyncUser_def Let_def incremental_sync_def)
    then show ?thesis by blast
  next
    case True
    then have eq: "autoSyncUser c userID w = initial_full_sync c userID ?w0"
      using alive by (simp add: autoSyncUser_def Let_def)
    show ?thesis
    proof (cases "GetDialogs c")
      case (Inl err)
      then show ?thesis unfolding eq by (simp add: initial_full_sync_def)
    next
      case (Inr dialogs)
      let ?mid = "CalledGetDialogs
            # map (\<lambda>d. CalledSaveConversation (d\<lparr>conv_UserID := userID\<rparr>)) dialogs
            @ concat (map (\<lambda>d. fetch_events userID
                (GetMessagesWithConvInfo c (conv_ID d) 50 (conv_Type d) (conv_AccessHash d))) dialogs)
            @ [CalledGetState]
            @ (case GetState c of Inl e \<Rightarrow> [] | Inr snap \<Rightarrow> [CalledSaveUpdatesState userID snap])"
      have "trace (initial_full_sync c userID ?w0) =
              trace w @ StartingAutoSync userID # ?mid @ [AutoSyncCompleted userID]"
        by (simp add: trace_bootstrap [OF alive0 Inr])
      then show ?thesis unfolding eq by blast
    qed
  qed
qed

text \<open>
  C9. In a tick over the users \<open>pre\<close>, \<open>a\<close>, \<open>mid\<close>, \<open>b\<close>, \<open>post\<close>: when the process is
  running at the turn of \<open>a\<close> and \<open>a\<close>, active and with a session, connects but fails the
  liveness check, the turn of \<open>a\<close> does nothing but save \<open>a\<close> as inactive, and \<open>a\<close> is
  inactive in the user table after it. The tick goes on: when the process is running at
  the turn of a later user \<open>b\<close> who is active, has a session, connects and passes the
  liveness check, the turn of \<open>b\<close> is a whole pass of \<open>autoSyncUser\<close> for \<open>b\<close>, and the
  tick continues from its result with the users after \<open>b\<close>. That pass returns without a
  panic. It begins with its first log line and ends with its last, \<open>Auto-sync completed\<close>,
  unless it is an initial full sync whose dialog listing fails: then it returns right
  after the listing, as the code has it. No goroutine that a pass of the tick starts for
  the channel sync panics: the channel sync of a client that passed the liveness check
  does not panic, in whatever state it finds the database.
\<close>

theorem scheduler_isolation:
  assumes users: "GetUsers (store w) = Inr (pre @ a # mid @ b # post)"
      and at_a: "wa = foldl (periodic_sync_user env) w pre"
      and alive_a: "\<not> crashed wa"
      and active_a: "user_IsActive a"
      and session_a: "GetActiveAuthSessionByUserID (store wa) (user_ID a) = Inr sa"
      and connect_a: "connect_result env (user_ID a) (sess_AppID sa) (sess_AppHash sa) = (None, ca)"
      and not_live_a: "IsAuthenticated ca = Inr False"
      and at_b: "wb = foldl (periodic_sync_user env) (save_user (a\<lparr>user_IsActive := False\<rparr>) wa) mid"
      and alive_b: "\<not> crashed wb"
      and active_b: "user_IsActive b"
      and session_b: "GetActiveAuthSessionByUserID (store wb) (user_ID b) = Inr sb"
      and connect_b: "connect_result env (user_ID b) (sess_AppID sb) (sess_AppHash sb) = (None, cb)"
      and live_b: "IsAuthenticated cb = Inr True"
  shows "periodic_sync env w =
           foldl (periodic_sync_user env) (autoSyncUser cb (user_ID b) wb) post
       \<and> periodic_sync_user env wa a = save_user (a\<lparr>user_IsActive := False\<rparr>) wa
       \<and> find (\<lambda>u. user_ID u = user_ID a)
            (users_table (store (save_user (a\<lparr>user_IsActive := False\<rparr>) wa)))
           = Some (a\<lparr>user_IsActive := False\<rparr>)
       \<and> periodic_sync_user env wb b = autoSyncUser cb (user_ID b) wb
       \<and> \<not> crashed (autoSyncUser cb (user_ID b) wb)
       \<and> ((\<exists>es. trace (autoSyncUser cb (user_ID b) wb) =
                   trace wb @ StartingAutoSync (user_ID b) # es @ [AutoSyncCompleted (user_ID b)])
          \<or> ((\<exists>err. GetDialogs cb = Inl err)
             \<and> trace (autoSyncUser cb (user_ID b) wb) =
                 trace wb @ [StartingAutoSync (user_ID b), CalledGetDialogs]))
       \<and> (\<forall>c u v. IsAuthenticated c = Inr True \<longrightarrow> crashed (channel_sync c u v) = crashed v)"
proof -
  have alive: "\<not> crashed w"
    using alive_a at_a crashed_stays [of w env pre] by auto
  have step_a: "periodic_sync_user env wa a = save_user (a\<lparr>user_IsActive := False\<rparr>) wa"
    using alive_a active_a session_a connect_a not_live_a by (simp add: periodic_sync_user_def)
  have step_b: "periodic_sync_user env wb b = autoSyncUser cb (user_ID b) wb"
    using alive_b active_b session_b connect_b live_b by (simp add: periodic_sync_user_def)
  have "periodic_sync env w = foldl (periodic_sync_user env) w (pre @ a # mid @ b # post)"
    using alive users by (simp add: periodic_sync_def)
  also have "\<dots> = foldl (periodic_sync_user env) (periodic_sync_user env wb b) post"
    using at_a at_b step_a by simp
  finally have whole: "periodic_sync env w =
      foldl (periodic_sync_user env) (autoSyncUser cb (user_ID b) wb) post"
    using step_b by simp
  have flagged: "find (\<lambda>u. user_ID u = user_ID a)
            (users_table (store (save_user (a\<lparr>user_IsActive := False\<rparr>) wa)))
           = Some (a\<lparr>user_IsActive := False\<rparr>)"
  proof -
    have "find P (filter (\<lambda>x. \<not> P x) xs @ [y]) = Some y" if "P y" for P xs and y :: user
      using that by (induction xs) simp_all
    from this [of "\<lambda>u. user_ID u = user_ID a" "a\<lparr>user_IsActive := False\<rparr>" "users_table (store wa)"]
    show ?thesis by (simp add: SaveUser_def)
  qed
  from live_ready [OF live_b] obtain r where ready: "api cb = Some r" by blast
  have returns: "\<not> crashed (autoSyncUser cb (user_ID b) wb)"
    using alive_b by (simp add: crashed_autoSyncUser [OF ready])
  have background: "\<forall>c u v. IsAuthenticated c = Inr True \<longrightarrow> crashed (channel_sync c u v) = crashed v"
    using live_ready crashed_channel_sync by blast
  show ?thesis
    using whole step_a flagged step_b returns pass_ends [OF alive_b, of cb "user_ID b"] background
    by blast
qed

lemma example_sessions:
  "GetActiveAuthSessionByUserID (store (fresh_world two_user_database)) 1 = Inr (example_session 1)"
  "GetActiveAuthSessionByUserID
     (store (save_user ((example_user 1)\<lparr>user_IsActive := False\<rparr>) (fresh_world two_user_database))) 2
     = Inr (example_session 2)"
  by (simp_all add: GetActiveAuthSessionByUserID_def newest_first_def fresh_world_def
      two_user_database_def empty_database_def example_session_def SaveUser_def)

lemma example_users:
  "GetUsers (store (fresh_world two_user_database)) = Inr [example_user 1, example_user 2]"
proof -
  have "first_day_utc 60 < first_day_utc 120" "first_day_utc 60 \<le> first_day_utc 120"
    "\<not> first_day_utc 120 < first_day_utc 60" "\<not> first_day_utc 120 \<le> first_day_utc 60"
    by (simp_all add: first_day_utc_def two_digits_def digit_char_def)
  then show ?thesis
    by (simp add: GetUsers_def newest_first_def fresh_world_def two_user_database_def
        empty_database_def example_user_def less_eq_prod_def less_prod_def)
qed

theorem scheduler_isolation_witness:
  "GetUsers (store (fresh_world two_user_database)) = Inr ([] @ example_user 1 # [] @ example_user 2 # [])
   \<and> \<not> crashed (fresh_world two_user_database)
   \<and> user_IsActive (example_user 1)
   \<and> IsAuthenticated (snd (connect_result first_user_rejected 1 1001 ''hash'')) = Inr False
   \<and> user_IsActive (example_user 2)
   \<and> IsAuthenticated (snd (connect_result first_user_rejected 2 1002 ''hash'')) = Inr True
   \<and> periodic_sync first_user_rejected (fresh_world two_user_database) =
       autoSyncUser (connected unreachable_remote) 2
         (save_user ((example_user 1)\<lparr>user_IsActive := False\<rparr>) (fresh_world two_user_database))
   \<and> \<not> crashed (periodic_sync first_user_rejected (fresh_world two_user_database))
   \<and> \<not> crashed (channel_sync (connected unreachable_remote) 2 (fresh_world two_user_database))
   \<and> trace (periodic_sync first_user_rejected (fresh_world two_user_database)) =
       [CalledSaveUser ((example_user 1)\<lparr>user_IsActive := False\<rparr>),
        StartingAutoSync 2, CalledGetDialogs, CalledGetState, AutoSyncCompleted 2]
   \<and> map (\<lambda>u. (user_ID u, user_IsActive u))
        (users_table (store (periodic_sync first_user_rejected (fresh_world two_user_database))))
      = [(2, True), (1, False)]"
proof -
  let ?w = "fresh_world two_user_database"
  let ?a' = "(example_user 1)\<lparr>user_IsActive := False\<rparr>"
  have users: "GetUsers (store ?w) = Inr ([] @ example_user 1 # [] @ example_user 2 # [])"
    using example_users by simp
  have alive: "\<not> crashed ?w" by (simp add: fresh_world_def)
  have alive': "\<not> crashed (foldl (periodic_sync_user first_user_rejected) (save_user ?a' ?w) [])"
    by (simp add: fresh_world_def)
  have c1: "connect_result first_user_rejected (user_ID (example_user 1))
              (sess_AppID (example_session 1)) (sess_AppHash (example_session 1))
            = (None, connected (unreachable_remote\<lparr>UsersGetFullUser := Some (RemoteError ''AUTH_KEY_UNREGISTERED'')\<rparr>))"
    by (simp add: first_user_rejected_def example_user_def)
  have c2: "connect_result first_user_rejected (user_ID (example_user 2))
              (sess_AppID (example_session 2)) (sess_AppHash (example_session 2))
            = (None, connected unreachable_remote)"
    by (simp add: first_user_rejected_def example_user_def)
  have d1: "IsAuthenticated (connected (unreachable_remote\<lparr>UsersGetFullUser := Some (RemoteError ''AUTH_KEY_UNREGISTERED'')\<rparr>)) = Inr False"
    by (simp add: IsAuthenticated_def connected_def)
  have d2: "IsAuthenticated (connected unreachable_remote) = Inr True"
    by (simp add: IsAuthenticated_def connected_def unreachable_remote_def)
  have s1: "GetActiveAuthSessionByUserID (store ?w) (user_ID (example_user 1)) = Inr (example_session 1)"
    using example_sessions(1) by (simp add: example_user_def)
  have s2: "GetActiveAuthSessionByUserID (store (save_user ?a' ?w)) (user_ID (example_user 2))
              = Inr (example_session 2)"
    using example_sessions(2) by (simp add: example_user_def)
  have a1: "user_IsActive (example_user 1)" and a2: "user_IsActive (example_user 2)"
    by (simp_all add: example_user_def)
  have i2: "user_ID (example_user 2) = 2" by (simp add: example_user_def)
  have run: "periodic_sync first_user_rejected ?w =
       autoSyncUser (connected unreachable_remote) 2 (save_user ?a' ?w)
     \<and> \<not> crashed (autoSyncUser (connected unreachable_remote) 2 (save_user ?a' ?w))
     \<and> \<not> crashed (channel_sync (connected unreachable_remote) 2 ?w)"
    using scheduler_isolation
            [of ?w "[]" "example_user 1" "[]" "example_user 2" "[]"
                ?w first_user_rejected
                "example_session 1"
                "connected (unreachable_remote\<lparr>UsersGetFullUser := Some (RemoteError ''AUTH_KEY_UNREGISTERED'')\<rparr>)"
                "save_user ?a' ?w"
                "example_session 2" "connected unreachable_remote"]
          users alive alive' a1 a2 s1 s2 c1 c2 d1 d2 i2
    by simp
  have tr: "trace (autoSyncUser (connected unreachable_remote) 2 (save_user ?a' ?w)) =
       [CalledSaveUser ?a', StartingAutoSync 2, CalledGetDialogs, CalledGetState, AutoSyncCompleted 2]"
    by (simp add: autoSyncUser_def GetUpdatesState_def scan_updates_state_def no_stored_state_def zero_state_def
        initial_full_sync_def GetDialogs_def GetState_def connected_def unreachable_remote_def
        fresh_world_def two_user_database_def empty_database_def SaveUser_def Let_def)
  have us: "map (\<lambda>u. (user_ID u, user_IsActive u))
        (users_table (store (autoSyncUser (connected unreachable_remote) 2 (save_user ?a' ?w))))
      = [(2, True), (1, False)]"
    by (simp add: autoSyncUser_def GetUpdatesState_def scan_updates_state_def no_stored_state_def zero_state_def
        initial_full_sync_def GetDialogs_def GetState_def connected_def unreachable_remote_def
        fresh_world_def two_user_database_def empty_database_def SaveUser_def example_user_def
        Let_def)
  show ?thesis
    using users alive run tr us c1 c2 d1 d2
    by (simp add: example_user_def example_session_def)
qed

end
